theory Spec2Isabelle
  imports Complex_Main "HOL-Library.AList"
begin

section \<open>Python values and library functions used by \<open>model_checkpoint.py\<close>\<close>

text \<open>
  A Python float: a finite double is the real number it denotes; the infinities, NaN and the
  negative zero are values of their own.
\<close>

datatype fval = FNegInf | Fin real | FPosInf | FNaN | FNegZero

text \<open>
  The values a metrics dictionary holds: Python ints, Python floats, and 0-dim tensors. The
  type \<open>'t\<close> of tensors is left open: a tensor has a dtype, a device and a value, and all
  the callback does with one is to compare it with another and to build one from a number.
\<close>

datatype 't pyval = PyInt int | PyFloat fval | PyTensor 't

text \<open>A \<open>dict\<close> with string keys, in insertion order: \<open>d[k] = v\<close> is
  \<open>AList.update\<close> (an existing key keeps its place, a new key goes last),
  \<open>d.pop(k)\<close> of a present key is \<open>AList.delete\<close>, \<open>d.get(k)\<close> is
  \<open>map_of\<close>.\<close>

type_synonym 't metrics = "(string \<times> 't pyval) list"

definition isinstance_Tensor :: "'t pyval \<Rightarrow> bool" where
  "isinstance_Tensor v = (case v of PyTensor _ \<Rightarrow> True | _ \<Rightarrow> False)"

text \<open>\<open>s.startswith(p)\<close> and \<open>sub in s\<close> on strings.\<close>

fun startswith :: "string \<Rightarrow> string \<Rightarrow> bool" where
  "startswith [] s = True"
| "startswith (p # ps) [] = False"
| "startswith (p # ps) (c # cs) = (p = c \<and> startswith ps cs)"

fun str_in :: "string \<Rightarrow> string \<Rightarrow> bool" where
  "str_in sub [] = (sub = [])"
| "str_in sub (c # cs) = (startswith sub (c # cs) \<or> str_in sub cs)"

text \<open>\<open>dict.update(other)\<close>: the pairs of \<open>other\<close> are stored in their order.\<close>

definition dict_update :: "('k \<times> 'v) list \<Rightarrow> ('k \<times> 'v) list \<Rightarrow> ('k \<times> 'v) list" where
  "dict_update d other = fold (\<lambda>(k, v) acc. AList.update k v acc) other d"

text \<open>\<open>str(n)\<close> of an integer, in decimal.\<close>

definition digit_char :: "nat \<Rightarrow> char" where
  "digit_char d = ''0123456789'' ! d"

fun str_nat :: "nat \<Rightarrow> string" where
  "str_nat n = (if n < 10 then [digit_char n] else str_nat (n div 10) @ [digit_char (n mod 10)])"

declare str_nat.simps [simp del]

definition str_int :: "int \<Rightarrow> string" where
  "str_int i = (if i < 0 then CHR ''-'' # str_nat (nat (- i)) else str_nat (nat i))"

text \<open>\<open>sep.join(xs)\<close>.\<close>

fun str_join :: "string \<Rightarrow> string list \<Rightarrow> string" where
  "str_join sep [] = []"
| "str_join sep [x] = x"
| "str_join sep (x # y # ys) = x @ sep @ str_join sep (y # ys)"

text \<open>\<open>os.path.join(a, b)\<close> of \<open>posixpath\<close>, for two components.\<close>

definition path_join :: "string \<Rightarrow> string \<Rightarrow> string" where
  "path_join a b =
     (if startswith ''/'' b then b
      else if a = [] \<or> last a = CHR ''/'' then a @ b
      else a @ ''/'' @ b)"

text \<open>
  \<open>re.findall(r"(\{.*?)[:\}]", s)\<close>: scanning from the left, a match starts at a
  \<open>{\<close>, takes as few characters as possible (none of them a newline) and ends at the
  first \<open>:\<close> or \<open>}\<close>; the group is the match without its last character, and the
  scan goes on after the match. \<open>lazy_group cs\<close> reads the text after the brace.
\<close>

fun lazy_group :: "string \<Rightarrow> (string \<times> string) option" where
  "lazy_group [] = None"
| "lazy_group (c # cs) =
     (if c = CHR '':'' \<or> c = CHR ''}'' then Some ([], cs)
      else if c = CHR 0x0A then None
      else (case lazy_group cs of None \<Rightarrow> None | Some (g, rest) \<Rightarrow> Some (c # g, rest)))"

lemma lazy_group_shorter: "lazy_group cs = Some (g, rest) \<Longrightarrow> length rest < length cs"
  by (induction cs arbitrary: g rest) (auto split: if_splits option.splits)

function re_findall_groups :: "string \<Rightarrow> string list" where
  "re_findall_groups [] = []"
| "re_findall_groups (c # cs) =
     (if c = CHR ''{'' then
        (case lazy_group cs of
           None \<Rightarrow> re_findall_groups cs
         | Some (g, rest) \<Rightarrow> (c # g) # re_findall_groups rest)
      else re_findall_groups cs)"
  by pat_completeness auto
termination
  by (relation "measure length") (auto dest: lazy_group_shorter)

text \<open>\<open>s.replace(old, new)\<close>: every occurrence, from the left, without overlap. With an
  empty \<open>old\<close> Python puts \<open>new\<close> before every character and at the end.\<close>

function str_replace :: "string \<Rightarrow> string \<Rightarrow> string \<Rightarrow> string" where
  "str_replace old new s =
     (if old = [] then new @ concat (map (\<lambda>c. c # new) s)
      else if s = [] then []
      else if startswith old s then new @ str_replace old new (drop (length old) s)
      else hd s # str_replace old new (tl s))"
  by pat_completeness auto
termination
  by (relation "measure (\<lambda>(old, new, s). length s)") auto

declare str_replace.simps [simp del]

section \<open>The callback object and its environment\<close>

datatype exn = MisconfigurationException | ValueError | KeyError | TypeError | AssertionError
  | IndexError | RuntimeError | NotModelled

text \<open>
  The functions of \<open>torch\<close> the callback calls, taken as parameters of the model:
  \<^item> \<open>torch_lt a b\<close> and \<open>torch_gt a b\<close>: \<open>torch.lt(a, b)\<close> and
    \<open>torch.gt(a, b)\<close> on two 0-dim tensors, read as a truth value (with the library's
    type promotion and rounding, whatever they are); the operators \<open><\<close> and \<open>>\<close>
    between tensors are these functions;
  \<^item> \<open>torch_tensor v\<close>: \<open>torch.tensor(v)\<close> of a Python number, moved to the device of
    the module, or the exception the call raises.
\<close>

record 't torch =
  torch_lt :: "'t \<Rightarrow> 't \<Rightarrow> bool"
  torch_gt :: "'t \<Rightarrow> 't \<Rightarrow> bool"
  torch_tensor :: "'t pyval \<Rightarrow> exn + 't"

text \<open>\<open>current\<close> when it is a tensor, \<open>torch.tensor(current)\<close> otherwise.\<close>

definition as_tensor :: "'t torch \<Rightarrow> 't pyval \<Rightarrow> exn + 't" where
  "as_tensor lib v = (case v of PyTensor t \<Rightarrow> Inr t | _ \<Rightarrow> torch_tensor lib v)"

text \<open>
  \<open>max(d, key=d.get)\<close> and \<open>min(d, key=d.get)\<close> over a dictionary of tensors: the
  keys are visited in insertion order and the candidate is replaced only by a strictly
  greater (smaller) one, so the first of several equal entries wins. On an empty dictionary
  Python raises \<open>ValueError\<close>: the result is \<open>None\<close>.
\<close>

fun py_max_from :: "'t torch \<Rightarrow> ('k \<times> 't) \<Rightarrow> ('k \<times> 't) list \<Rightarrow> ('k \<times> 't)" where
  "py_max_from lib best [] = best"
| "py_max_from lib best (x # xs) =
     py_max_from lib (if torch_gt lib (snd x) (snd best) then x else best) xs"

fun py_min_from :: "'t torch \<Rightarrow> ('k \<times> 't) \<Rightarrow> ('k \<times> 't) list \<Rightarrow> ('k \<times> 't)" where
  "py_min_from lib best [] = best"
| "py_min_from lib best (x # xs) =
     py_min_from lib (if torch_lt lib (snd x) (snd best) then x else best) xs"

definition py_max :: "'t torch \<Rightarrow> ('k \<times> 't) list \<Rightarrow> ('k \<times> 't) option" where
  "py_max lib d = (case d of [] \<Rightarrow> None | x # xs \<Rightarrow> Some (py_max_from lib x xs))"

definition py_min :: "'t torch \<Rightarrow> ('k \<times> 't) list \<Rightarrow> ('k \<times> 't) option" where
  "py_min lib d = (case d of [] \<Rightarrow> None | x # xs \<Rightarrow> Some (py_min_from lib x xs))"

text \<open>\<open>self.mode\<close> is the string \<open>"min"\<close> or \<open>"max"\<close>: \<open>__init_monitor_mode\<close>
  stores nothing else.\<close>

datatype monitor_mode = Min | Max

text \<open>The calls to \<open>rank_zero_warn\<close> and to \<open>log.info\<close>, by what they report.\<close>

text \<open>\<open>self.kth_value\<close>: one of the two sentinels \<open>torch.tensor(np.Inf)\<close> and
  its negation, which \<open>__init_monitor_mode\<close> stores, or a score of the dictionary.\<close>

datatype 't kth = NegInf | PosInf | Kth 't

datatype 't warning =
    UnknownMode string
  | NotATensor "'t pyval"
  | MonitorNotAvailable "string option"
  | NoCheckpointOn

datatype info =
    NotInTopK int
  | SavingModelTo int string
  | ReachedTopK int string

text \<open>
  One record holds the attributes of the \<open>ModelCheckpoint\<close> object and the part of the
  world its methods touch:
  \<^item> \<open>files\<close>: the paths that exist on the storage backend \<open>self._fs\<close>;
  \<^item> \<open>dicts\<close>: the store of dictionary objects, a reference being an index; the trainer's
    three metrics dictionaries and the copies the callback makes live here, so that
    mutation through a shared reference is visible;
  \<^item> \<open>warnings\<close>, \<open>infos\<close>: the calls made to \<open>rank_zero_warn\<close> and \<open>log.info\<close>;
  \<^item> \<open>saved\<close>: the calls made to \<open>self.save_function\<close>;
  \<^item> \<open>rank\<close>: the process rank read by the \<open>rank_zero_only\<close> decorator.
  \<open>save_function\<close> tells whether the attribute is set. \<open>dirpath\<close> and \<open>filename\<close>
  are the attributes as \<open>__init_ckpt_dir\<close> or \<open>__resolve_ckpt_dir\<close> left them.
\<close>

record 't state =
  monitor :: "string option"
  verbose :: bool
  save_last :: bool
  save_top_k :: int
  save_weights_only :: bool
  period :: int
  epoch_last_check :: "int option"
  prefix :: string
  best_k_models :: "(string \<times> 't) list"
  kth_best_model_path :: string
  best_model_score :: "'t pyval"
  best_model_path :: string
  last_model_path :: string
  save_function :: bool
  warned_result_obj :: bool
  kth_value :: "'t kth"
  mode :: monitor_mode
  dirpath :: "string option"
  filename :: "string option"
  files :: "string list"
  dicts :: "'t metrics list"
  warnings :: "'t warning list"
  infos :: "info list"
  saved :: "(string \<times> bool) list"
  rank :: int

text \<open>The trainer as the callback reads it; the three dictionaries of
  \<open>trainer.logger_connector\<close> are references into \<open>dicts\<close>.\<close>

record trainer =
  global_rank :: int
  running_sanity_check :: bool
  current_epoch :: int
  logged_metrics :: nat
  callback_metrics :: nat
  progress_bar_metrics :: nat

text \<open>Modelled from the spec: \<open>rank_zero_warn\<close> of \<open>pytorch_lightning.utilities\<close> is
  not under src/; the spec says the engine "emits a warning", which is recorded.\<close>

definition rank_zero_warn :: "'t warning \<Rightarrow> 't state \<Rightarrow> 't state" where
  "rank_zero_warn w st = st\<lparr>warnings := warnings st @ [w]\<rparr>"

definition log_info :: "info \<Rightarrow> 't state \<Rightarrow> 't state" where
  "log_info i st = st\<lparr>infos := infos st @ [i]\<rparr>"

subsection \<open>\<open>__init_monitor_mode\<close>\<close>

definition mode_dict :: "string option \<Rightarrow> (string \<times> ('t kth \<times> monitor_mode)) list" where
  "mode_dict mon =
     [(''min'', (PosInf, Min)),
      (''max'', (NegInf, Max)),
      (''auto'',
         (case mon of
            None \<Rightarrow> (PosInf, Min)
          | Some m \<Rightarrow>
              if str_in ''acc'' m \<or> startswith ''fmeasure'' m then (NegInf, Max)
              else (PosInf, Min)))]"

definition init_monitor_mode :: "string option \<Rightarrow> string \<Rightarrow> 't state \<Rightarrow> (exn + unit) \<times> 't state" where
  "init_monitor_mode mon md st =
     (let (md1, st1) =
            (if map_of (mode_dict mon :: (string \<times> ('t kth \<times> monitor_mode)) list) md = None
             then (''auto'', rank_zero_warn (UnknownMode md) st)
             else (md, st))
      in case map_of (mode_dict mon) md1 of
           None \<Rightarrow> (Inl KeyError, st1)
         | Some (kv, m) \<Rightarrow> (Inr (), st1\<lparr>kth_value := kv, mode := m\<rparr>))"

subsection \<open>Construction\<close>

definition validate_init_configuration :: "'t state \<Rightarrow> (exn + unit) \<times> 't state" where
  "validate_init_configuration st =
     (if save_top_k st \<noteq> 1 \<and> monitor st = None then (Inl MisconfigurationException, st)
      else (Inr (), st))"

text \<open>
  \<open>__init__\<close>. The directory and the file name template, which \<open>__init_ckpt_dir\<close> splits
  from \<open>filepath\<close> with calls to the storage backend, are taken as they come out of it;
  \<open>fs\<close>, \<open>ds\<close> and \<open>r\<close> are the storage, the dictionary store and the process rank the
  object is created in; \<open>save_function\<close> is unset.
\<close>

definition init ::
  "string option \<Rightarrow> string option \<Rightarrow> string option \<Rightarrow> bool \<Rightarrow> bool \<Rightarrow> int \<Rightarrow> bool \<Rightarrow> string
     \<Rightarrow> int \<Rightarrow> string \<Rightarrow> string list \<Rightarrow> 't metrics list \<Rightarrow> int \<Rightarrow> (exn + unit) \<times> 't state" where
  "init dir fname mon verb slast topk wonly md per pre fs ds r =
     (let st = \<lparr>monitor = mon, verbose = verb, save_last = slast, save_top_k = topk,
                save_weights_only = wonly, period = per, epoch_last_check = None,
                prefix = pre, best_k_models = [], kth_best_model_path = [],
                best_model_score = PyInt 0, best_model_path = [], last_model_path = [],
                save_function = False, warned_result_obj = False, kth_value = PosInf,
                mode = Min, dirpath = dir, filename = fname, files = fs, dicts = ds,
                warnings = [], infos = [], saved = [], rank = r\<rparr>
      in case init_monitor_mode mon md st of
           (Inl e, st1) \<Rightarrow> (Inl e, st1)
         | (Inr _, st1) \<Rightarrow> validate_init_configuration st1)"

subsection \<open>Storage and the save delegate\<close>

text \<open>Modelled from the spec: the storage backend (\<open>get_filesystem\<close> of
  \<open>pytorch_lightning.utilities.cloud_io\<close>) is not under src/. Of its capability set
  \<open>exists(path)\<close> is membership in \<open>files\<close> and \<open>remove(path)\<close> takes the path
  out; \<open>makeDirs\<close> creates no artifact path.\<close>

definition fs_exists :: "string \<Rightarrow> 't state \<Rightarrow> bool" where
  "fs_exists filepath st = (filepath \<in> set (files st))"

definition fs_rm :: "string \<Rightarrow> 't state \<Rightarrow> 't state" where
  "fs_rm filepath st = st\<lparr>files := removeAll filepath (files st)\<rparr>"

definition del_model :: "string \<Rightarrow> 't state \<Rightarrow> 't state" where
  "del_model filepath st = (if fs_exists filepath st then fs_rm filepath st else st)"

text \<open>Modelled from the spec: the save delegate \<open>save(path, weightsOnly)\<close> (the trainer's
  \<open>save_checkpoint\<close>, not under src/) "serializes and writes the artifact bytes for a
  given path": the call is recorded and the path exists afterwards.\<close>

definition call_save_function :: "string \<Rightarrow> bool \<Rightarrow> 't state \<Rightarrow> 't state" where
  "call_save_function filepath weights_only st =
     st\<lparr>saved := saved st @ [(filepath, weights_only)],
        files := List.insert filepath (files st)\<rparr>"

text \<open>\<open>_save_model\<close>; the debugger's checkpointing history is not part of the state.\<close>

definition save_model :: "string \<Rightarrow> 't state \<Rightarrow> (exn + unit) \<times> 't state" where
  "save_model filepath st =
     (if save_function st then (Inr (), call_save_function filepath (save_weights_only st) st)
      else (Inl ValueError, st))"

subsection \<open>\<open>check_monitor_top_k\<close>\<close>

definition monitor_op :: "'t torch \<Rightarrow> monitor_mode \<Rightarrow> 't \<Rightarrow> 't \<Rightarrow> bool" where
  "monitor_op lib m = (case m of Min \<Rightarrow> torch_lt lib | Max \<Rightarrow> torch_gt lib)"

text \<open>The conversion of \<open>current\<close> comes before the lookup of
  \<open>self.best_k_models[self.kth_best_model_path]\<close>, so its exception wins.\<close>

definition check_monitor_top_k :: "'t torch \<Rightarrow> 't pyval \<Rightarrow> 't state \<Rightarrow> (exn + bool) \<times> 't state" where
  "check_monitor_top_k lib current st =
     (if int (length (best_k_models st)) < save_top_k st then (Inr True, st)
      else
        let st1 = (if \<not> isinstance_Tensor current then rank_zero_warn (NotATensor current) st
                   else st)
        in case as_tensor lib current of
             Inl e \<Rightarrow> (Inl e, st1)
           | Inr cur \<Rightarrow>
               (case map_of (best_k_models st1) (kth_best_model_path st1) of
                  None \<Rightarrow> (Inl KeyError, st1)
                | Some kth \<Rightarrow> (Inr (monitor_op lib (mode st1) cur kth), st1)))"

subsection \<open>The file name formatter\<close>

text \<open>
  \<open>fmt\<close> stands for Python's \<open>str.format(**metrics)\<close>: from the rewritten template
  and the dictionary it gives the rendered text or the exception raised. The methods take
  it as a parameter; \<open>str_format\<close> below is a model of it for the templates of the
  docstrings. \<open>mref\<close> is the reference of the dictionary passed as \<open>metrics\<close>.
\<close>

type_synonym 't formatter = "string \<Rightarrow> 't metrics \<Rightarrow> exn + string"

definition CHECKPOINT_JOIN_CHAR :: string where
  "CHECKPOINT_JOIN_CHAR = ''-''"

definition CHECKPOINT_NAME_LAST :: string where
  "CHECKPOINT_NAME_LAST = ''last''"

text \<open>The body of the loop \<open>for group in groups\<close>, on the template and the dictionary.\<close>

definition rewrite_group :: "string \<Rightarrow> string \<times> 't metrics \<Rightarrow> string \<times> 't metrics" where
  "rewrite_group grp = (\<lambda>(fname, m).
     let name = tl grp;
         fname1 = str_replace grp (name @ ''={'' @ name) fname
     in (fname1, if map_of m name = None then AList.update name (PyInt 0) m else m))"

definition format_checkpoint_name_cls ::
  "'t formatter \<Rightarrow> string option \<Rightarrow> int \<Rightarrow> nat \<Rightarrow> string \<Rightarrow> 't state \<Rightarrow> (exn + string) \<times> 't state" where
  "format_checkpoint_name_cls fmt fname epoch mref pre st =
     (let fname0 = (case fname of None \<Rightarrow> ''{epoch}'' | Some f \<Rightarrow> if f = [] then ''{epoch}'' else f);
          groups = re_findall_groups fname0
      in if groups \<noteq> [] then
           let m0 = AList.update ''epoch'' (PyInt epoch) (dicts st ! mref);
               (fname1, m1) = fold rewrite_group groups (fname0, m0);
               st1 = st\<lparr>dicts := (dicts st)[mref := m1]\<rparr>
           in case fmt fname1 m1 of
                Inl e \<Rightarrow> (Inl e, st1)
              | Inr txt \<Rightarrow> (Inr (str_join CHECKPOINT_JOIN_CHAR (filter (\<lambda>t. t \<noteq> []) [pre, txt])), st1)
         else (Inr (str_join CHECKPOINT_JOIN_CHAR (filter (\<lambda>t. t \<noteq> []) [pre, fname0])), st))"

text \<open>\<open>os.path.join(self.dirpath, ckpt_name) if self.dirpath else ckpt_name\<close>.\<close>

definition ckpt_path :: "string option \<Rightarrow> string \<Rightarrow> string" where
  "ckpt_path dir ckpt_name =
     (case dir of
        None \<Rightarrow> ckpt_name
      | Some d \<Rightarrow> if d = [] then ckpt_name else path_join d ckpt_name)"

definition format_checkpoint_name ::
  "'t formatter \<Rightarrow> int \<Rightarrow> nat \<Rightarrow> int option \<Rightarrow> 't state \<Rightarrow> (exn + string) \<times> 't state" where
  "format_checkpoint_name fmt epoch mref ver st =
     (case format_checkpoint_name_cls fmt (filename st) epoch mref (prefix st) st of
        (Inl e, st1) \<Rightarrow> (Inl e, st1)
      | (Inr fname, st1) \<Rightarrow>
          let fname1 = (case ver of
                          None \<Rightarrow> fname
                        | Some v \<Rightarrow> str_join CHECKPOINT_JOIN_CHAR [fname, ''v'' @ str_int v]);
              ckpt_name = fname1 @ ''.ckpt''
          in (Inr (ckpt_path (dirpath st1) ckpt_name), st1))"

subsection \<open>Collision probing\<close>

text \<open>
  The loop of \<open>_get_metric_interpolated_filepath_name\<close> ends because the storage holds
  finitely many paths and the path formatted for version \<open>v\<close> ends with the decimal
  digits of \<open>v\<close>: the versions from \<open>version_cnt\<close> on whose path can exist become
  fewer at every round.
\<close>

lemma str_nat_bound: "n < 10 ^ length (str_nat n)"
proof (induction n rule: str_nat.induct)
  case (1 n)
  show ?case
  proof (cases "n < 10")
    case True
    then show ?thesis by (subst str_nat.simps) simp
  next
    case False
    then have ih: "n div 10 < 10 ^ length (str_nat (n div 10))" using 1 by simp
    have "n < 10 * (n div 10 + 1)" by presburger
    also have "\<dots> \<le> 10 * 10 ^ length (str_nat (n div 10))" using ih by simp
    finally show ?thesis using False by (subst str_nat.simps) simp
  qed
qed

lemma length_le_sum_list: "x \<in> set xs \<Longrightarrow> length x \<le> sum_list (map length xs)"
  by (induction xs) auto

definition versioned_files :: "string list \<Rightarrow> nat set" where
  "versioned_files fs = {v. \<exists>x. x @ ''-v'' @ str_nat v @ ''.ckpt'' \<in> set fs}"

lemma finite_versioned_files: "finite (versioned_files fs)"
proof -
  have "versioned_files fs \<subseteq> {v. v < 10 ^ sum_list (map length fs)}"
  proof
    fix v assume "v \<in> versioned_files fs"
    then obtain x where x: "x @ ''-v'' @ str_nat v @ ''.ckpt'' \<in> set fs"
      by (auto simp: versioned_files_def)
    then have "length (x @ ''-v'' @ str_nat v @ ''.ckpt'') \<le> sum_list (map length fs)"
      by (rule length_le_sum_list)
    then have "length (str_nat v) \<le> sum_list (map length fs)" by simp
    then have "(10::nat) ^ length (str_nat v) \<le> 10 ^ sum_list (map length fs)"
      by (intro power_increasing) auto
    with str_nat_bound [of v] have "v < 10 ^ sum_list (map length fs)"
      by (rule less_le_trans)
    then show "v \<in> {v. v < 10 ^ sum_list (map length fs)}"
      by simp
  qed
  then show ?thesis by (rule finite_subset) simp
qed

lemma format_checkpoint_name_files:
  "format_checkpoint_name fmt epoch mref ver st = (r, st1) \<Longrightarrow> files st1 = files st"
  by (auto simp: format_checkpoint_name_def format_checkpoint_name_cls_def Let_def
      split: prod.splits sum.splits if_splits option.splits)

lemma format_checkpoint_name_version:
  "format_checkpoint_name fmt epoch mref (Some (int v)) st = (Inr p, st1) \<Longrightarrow>
     \<exists>x. p = x @ ''-v'' @ str_nat v @ ''.ckpt''"
  by (auto simp: format_checkpoint_name_def Let_def CHECKPOINT_JOIN_CHAR_def str_int_def
      ckpt_path_def path_join_def split: prod.splits sum.splits if_splits option.splits)

function while_exists ::
  "'t formatter \<Rightarrow> int \<Rightarrow> nat \<Rightarrow> nat \<Rightarrow> string \<Rightarrow> 't state \<Rightarrow> (exn + string) \<times> 't state" where
  "while_exists fmt epoch mref version_cnt filepath st =
     (if fs_exists filepath st then
        (case format_checkpoint_name fmt epoch mref (Some (int version_cnt)) st of
           (Inl e, st1) \<Rightarrow> (Inl e, st1)
         | (Inr filepath1, st1) \<Rightarrow> while_exists fmt epoch mref (version_cnt + 1) filepath1 st1)
      else (Inr filepath, st))"
  by pat_completeness auto
termination
proof (relation "measure (\<lambda>(fmt, epoch, mref, version_cnt, filepath, st).
          card {v \<in> versioned_files (files st). version_cnt \<le> v}
          + (if fs_exists filepath st then 1 else 0))", goal_cases)
  case 1
  show ?case by simp
next
  case (2 fmt epoch mref version_cnt filepath st x1 x2 filepath1)
  then have fmt_eq: "format_checkpoint_name fmt epoch mref (Some (int version_cnt)) st = (Inr filepath1, x2)"
    by simp
  have fs: "files x2 = files st"
    using fmt_eq by (rule format_checkpoint_name_files)
  obtain x where p: "filepath1 = x @ ''-v'' @ str_nat version_cnt @ ''.ckpt''"
    using format_checkpoint_name_version [OF fmt_eq] by blast
  let ?S = "\<lambda>n. {v \<in> versioned_files (files st). n \<le> v}"
  have fin: "finite (?S version_cnt)"
    using finite_versioned_files by simp
  have sub: "?S (version_cnt + 1) \<subseteq> ?S version_cnt" by auto
  show ?case
  proof (cases "fs_exists filepath1 x2")
    case True
    then have "version_cnt \<in> ?S version_cnt"
      using p fs by (auto simp: fs_exists_def versioned_files_def)
    moreover have "version_cnt \<notin> ?S (version_cnt + 1)" by simp
    ultimately have "?S (version_cnt + 1) \<subset> ?S version_cnt" using sub by blast
    then have "card (?S (version_cnt + 1)) < card (?S version_cnt)"
      using fin by (rule psubset_card_mono [rotated])
    then show ?thesis using True 2 fs by simp
  next
    case False
    have "card (?S (version_cnt + 1)) \<le> card (?S version_cnt)"
      using fin sub by (rule card_mono)
    then show ?thesis using False 2 fs by simp
  qed
qed

declare while_exists.simps [simp del]

definition get_metric_interpolated_filepath_name ::
  "'t formatter \<Rightarrow> int \<Rightarrow> nat \<Rightarrow> 't state \<Rightarrow> (exn + string) \<times> 't state" where
  "get_metric_interpolated_filepath_name fmt epoch mref st =
     (case format_checkpoint_name fmt epoch mref None st of
        (Inl e, st1) \<Rightarrow> (Inl e, st1)
      | (Inr filepath, st1) \<Rightarrow> while_exists fmt epoch mref 0 filepath st1)"

subsection \<open>A model of \<open>str.format\<close>\<close>

text \<open>
  \<open>str_format t m\<close> is \<open>t.format(**m)\<close> for templates whose replacement fields are
  \<open>{name}\<close> or \<open>{name:spec}\<close> with a specification \<open>[0][width][.precision][type]\<close>
  of type \<open>d\<close>, \<open>f\<close> or none: \<open>{{\<close> and \<open>}}\<close> are literal braces, a brace
  without its partner raises \<open>ValueError\<close>, a name that is no key raises \<open>KeyError\<close>,
  a field without a name or with a number for its name asks for a positional argument and
  raises \<open>IndexError\<close>. Outside of this fragment (conversions, attribute and index
  access, nested fields, other presentation types, a float with no type, a tensor) the
  result is \<open>NotModelled\<close>.
\<close>

definition is_digit :: "char \<Rightarrow> bool" where
  "is_digit c = (c \<in> set ''0123456789'')"

definition nat_of_digits :: "string \<Rightarrow> nat" where
  "nat_of_digits ds = fold (\<lambda>c n. 10 * n + (of_char c - 48)) ds 0"

definition parse_spec :: "string \<Rightarrow> exn + (bool \<times> nat option \<times> nat option \<times> char option)" where
  "parse_spec spec =
     (let zero = startswith ''0'' spec;
          s1 = (if zero then tl spec else spec);
          wd = takeWhile is_digit s1;
          s2 = dropWhile is_digit s1;
          width = (if wd = [] then None else Some (nat_of_digits wd))
      in if startswith ''.'' s2 then
           (let pd = takeWhile is_digit (tl s2); s3 = dropWhile is_digit (tl s2)
            in if pd = [] then Inl ValueError
               else (case s3 of
                       [] \<Rightarrow> Inr (zero, width, Some (nat_of_digits pd), None)
                     | [c] \<Rightarrow> Inr (zero, width, Some (nat_of_digits pd), Some c)
                     | _ \<Rightarrow> Inl NotModelled))
         else (case s2 of
                 [] \<Rightarrow> Inr (zero, width, None, None)
               | [c] \<Rightarrow> Inr (zero, width, None, Some c)
               | _ \<Rightarrow> Inl NotModelled))"

definition pad_number :: "bool \<Rightarrow> nat option \<Rightarrow> string \<Rightarrow> string \<Rightarrow> string" where
  "pad_number zero width sg body =
     (let w = (case width of None \<Rightarrow> 0 | Some n \<Rightarrow> n);
          n = w - (length sg + length body)
      in if zero then sg @ replicate n CHR ''0'' @ body
         else replicate n CHR '' '' @ sg @ body)"

definition round_half_even :: "real \<Rightarrow> nat" where
  "round_half_even y =
     (let f = \<lfloor>y\<rfloor>; d = y - of_int f
      in nat (if d < 1 / 2 then f else if 1 / 2 < d then f + 1
              else if even f then f else f + 1))"

text \<open>Presentation type \<open>f\<close> with precision \<open>p\<close>: the sign and the digits. The exact
  value is rounded to \<open>p\<close> decimals, half to even, as Python's correctly rounded
  conversion does.\<close>

definition fixed_digits :: "real \<Rightarrow> nat \<Rightarrow> string" where
  "fixed_digits r p =
     (let scaled = round_half_even (\<bar>r\<bar> * 10 ^ p);
          ip = str_nat (scaled div 10 ^ p);
          fp = str_nat (scaled mod 10 ^ p)
      in if p = 0 then ip else ip @ ''.'' @ replicate (p - length fp) CHR ''0'' @ fp)"

definition fixed_point :: "fval \<Rightarrow> nat \<Rightarrow> string \<times> string" where
  "fixed_point x p =
     (case x of
        FNaN \<Rightarrow> ([], ''nan'')
      | FPosInf \<Rightarrow> ([], ''inf'')
      | FNegInf \<Rightarrow> (''-'', ''inf'')
      | FNegZero \<Rightarrow> (''-'', fixed_digits 0 p)
      | Fin r \<Rightarrow> (if r < 0 then ''-'' else [], fixed_digits r p))"

definition is_finite :: "fval \<Rightarrow> bool" where
  "is_finite x = (case x of Fin _ \<Rightarrow> True | FNegZero \<Rightarrow> True | _ \<Rightarrow> False)"

text \<open>\<open>format(v, spec)\<close>. An int under \<open>f\<close> goes through \<open>float(v)\<close>, which is exact up
  to \<open>2 ^ 53\<close>; beyond that, for a tensor, and for an infinity or NaN padded with zeros,
  the result is \<open>NotModelled\<close>.\<close>

definition format_value :: "'t pyval \<Rightarrow> string \<Rightarrow> exn + string" where
  "format_value v spec =
     (case parse_spec spec of
        Inl e \<Rightarrow> Inl e
      | Inr (zero, width, prec, ty) \<Rightarrow>
          (case v of
             PyTensor _ \<Rightarrow> Inl NotModelled
           | PyInt i \<Rightarrow>
               if ty = Some CHR ''f'' then
                 (if \<bar>i\<bar> \<le> 2 ^ 53 then
                    (let (sg, body) = fixed_point (Fin (of_int i))
                                        (case prec of None \<Rightarrow> 6 | Some p \<Rightarrow> p)
                     in Inr (pad_number zero width sg body))
                  else Inl NotModelled)
               else if ty = None \<or> ty = Some CHR ''d'' then
                 (if prec \<noteq> None then Inl ValueError
                  else Inr (pad_number zero width (if i < 0 then ''-'' else [])
                              (str_nat (nat \<bar>i\<bar>))))
               else Inl NotModelled
           | PyFloat x \<Rightarrow>
               if ty = Some CHR ''f'' then
                 (if is_finite x \<or> \<not> zero then
                    (let (sg, body) = fixed_point x (case prec of None \<Rightarrow> 6 | Some p \<Rightarrow> p)
                     in Inr (pad_number zero width sg body))
                  else Inl NotModelled)
               else if ty = Some CHR ''d'' then Inl ValueError
               else Inl NotModelled))"

fun until_brace :: "string \<Rightarrow> (string \<times> string) option" where
  "until_brace [] = None"
| "until_brace (c # cs) =
     (if c = CHR ''}'' then Some ([], cs)
      else (case until_brace cs of None \<Rightarrow> None | Some (f, rest) \<Rightarrow> Some (c # f, rest)))"

lemma until_brace_shorter: "until_brace cs = Some (f, rest) \<Longrightarrow> length rest < length cs"
  by (induction cs arbitrary: f rest) (auto split: if_splits option.splits)

definition render_field :: "string \<Rightarrow> 't metrics \<Rightarrow> exn + string" where
  "render_field field m =
     (let name = takeWhile (\<lambda>c. c \<noteq> CHR '':'') field;
          spec = drop (length name + 1) field
      in if CHR ''{'' \<in> set field \<or> CHR ''!'' \<in> set name \<or> CHR ''.'' \<in> set name \<or> CHR ''['' \<in> set name
         then Inl NotModelled
         else if list_all is_digit name then Inl IndexError
         else (case map_of m name of
                 None \<Rightarrow> Inl KeyError
               | Some v \<Rightarrow> format_value v spec))"

function str_format :: "string \<Rightarrow> 't metrics \<Rightarrow> exn + string" where
  "str_format [] m = Inr []"
| "str_format (c # cs) m =
     (if c = CHR ''{'' then
        (if startswith ''{'' cs then
           (case str_format (tl cs) m of Inl e \<Rightarrow> Inl e | Inr t \<Rightarrow> Inr (c # t))
         else
           (case until_brace cs of
              None \<Rightarrow> Inl ValueError
            | Some (field, rest) \<Rightarrow>
                (case render_field field m of
                   Inl e \<Rightarrow> Inl e
                 | Inr txt \<Rightarrow>
                     (case str_format rest m of Inl e \<Rightarrow> Inl e | Inr t \<Rightarrow> Inr (txt @ t)))))
      else if c = CHR ''}'' then
        (if startswith ''}'' cs then
           (case str_format (tl cs) m of Inl e \<Rightarrow> Inl e | Inr t \<Rightarrow> Inr (c # t))
         else Inl ValueError)
      else (case str_format cs m of Inl e \<Rightarrow> Inl e | Inr t \<Rightarrow> Inr (c # t)))"
  by pat_completeness auto
termination
  by (relation "measure (\<lambda>(s, m). length s)") (auto dest: until_brace_shorter)

subsection \<open>The gate and the monitor key\<close>

definition should_skip_epoch :: "trainer \<Rightarrow> 't state \<Rightarrow> bool" where
  "should_skip_epoch tr st =
     (case epoch_last_check st of
        None \<Rightarrow> False
      | Some e \<Rightarrow> current_epoch tr - e < period st)"

definition add_backward_monitor_support :: "trainer \<Rightarrow> 't state \<Rightarrow> 't state" where
  "add_backward_monitor_support tr st =
     (let m = dicts st ! callback_metrics tr;
          st1 = (if monitor st = None \<and> map_of m ''val_loss'' \<noteq> None
                 then st\<lparr>monitor := Some ''val_loss''\<rparr> else st)
      in if monitor st1 = None \<and> map_of m ''checkpoint_on'' \<noteq> None
         then st1\<lparr>monitor := Some ''checkpoint_on''\<rparr> else st1)"

text \<open>\<open>self.monitor in metrics or len(metrics) == 0\<close>; the key \<open>None\<close> is in no
  dictionary of metrics.\<close>

definition is_valid_monitor_key :: "'t metrics \<Rightarrow> 't state \<Rightarrow> bool" where
  "is_valid_monitor_key m st =
     ((case monitor st of None \<Rightarrow> False | Some k \<Rightarrow> map_of m k \<noteq> None) \<or> length m = 0)"

definition validate_monitor_key :: "trainer \<Rightarrow> 't state \<Rightarrow> (exn + unit) \<times> 't state" where
  "validate_monitor_key tr st =
     (let m = dicts st ! callback_metrics tr
      in if monitor st \<noteq> None \<and> \<not> is_valid_monitor_key m st
         then (Inl MisconfigurationException, st)
         else (Inr (), st))"

text \<open>\<open>_monitor_candidates\<close>: \<open>deepcopy\<close> makes a new dictionary object, which the two
  \<open>update\<close> calls fill; the result is its reference.\<close>

definition monitor_candidates :: "trainer \<Rightarrow> 't state \<Rightarrow> nat \<times> 't state" where
  "monitor_candidates tr st =
     (let ckpt_name_metrics = dicts st ! logged_metrics tr;
          m1 = dict_update ckpt_name_metrics (dicts st ! callback_metrics tr);
          m2 = dict_update m1 (dicts st ! progress_bar_metrics tr)
      in (length (dicts st), st\<lparr>dicts := dicts st @ [m2]\<rparr>))"

subsection \<open>Mode 1: the last checkpoint\<close>

definition save_last_checkpoint ::
  "'t formatter \<Rightarrow> int \<Rightarrow> nat \<Rightarrow> string \<Rightarrow> 't state \<Rightarrow> (exn + unit) \<times> 't state" where
  "save_last_checkpoint fmt epoch mref filepath st =
     (if \<not> (monitor st = None \<or> save_last st) then (Inr (), st)
      else
        case (if save_last st then
                (case format_checkpoint_name_cls fmt (Some CHECKPOINT_NAME_LAST) epoch mref
                        (prefix st) st of
                   (Inl e, st1) \<Rightarrow> (Inl e, st1)
                 | (Inr fname, st1) \<Rightarrow>
                     (case dirpath st1 of
                        None \<Rightarrow> (Inl TypeError, st1)
                      | Some d \<Rightarrow> (Inr (path_join d (fname @ ''.ckpt'')), st1)))
              else (Inr filepath, st)) of
          (Inl e, st1) \<Rightarrow> (Inl e, st1)
        | (Inr last_filepath, st1) \<Rightarrow>
            (case save_model last_filepath st1 of
               (Inl e, st2) \<Rightarrow> (Inl e, st2)
             | (Inr _, st2) \<Rightarrow>
                 let st3 = (if last_model_path st2 \<noteq> [] \<and> last_model_path st2 \<noteq> last_filepath
                            then del_model (last_model_path st2) st2 else st2);
                     st4 = st3\<lparr>last_model_path := last_filepath\<rparr>;
                     st5 = (if monitor st4 = None
                            then st4\<lparr>best_model_path := last_model_path st4\<rparr> else st4)
                 in (Inr (), st5)))"

subsection \<open>Mode 2: all checkpoints, or the top k\<close>

definition save_all_checkpoints :: "trainer \<Rightarrow> int \<Rightarrow> string \<Rightarrow> 't state \<Rightarrow> (exn + unit) \<times> 't state" where
  "save_all_checkpoints tr epoch filepath st =
     (let st1 = (if verbose st then log_info (SavingModelTo epoch filepath) st else st)
      in if global_rank tr \<noteq> 0 then (Inl AssertionError, st1)
         else save_model filepath st1)"

text \<open>\<open>_do_check_save\<close>. \<open>max\<close> and \<open>min\<close> give the key together with the value
  \<open>self.best_k_models[key]\<close> read right after.\<close>

definition do_check_save ::
  "'t torch \<Rightarrow> string \<Rightarrow> 't \<Rightarrow> int \<Rightarrow> 't state \<Rightarrow> (exn + unit) \<times> 't state" where
  "do_check_save lib filepath current epoch st =
     (case (if int (length (best_k_models st)) = save_top_k st \<and> save_top_k st > 0 then
              (case map_of (best_k_models st) (kth_best_model_path st) of
                 None \<Rightarrow> (Inl KeyError, st)
               | Some _ \<Rightarrow>
                   (Inr [kth_best_model_path st],
                    st\<lparr>best_k_models := AList.delete (kth_best_model_path st) (best_k_models st)\<rparr>))
            else (Inr [], st)) of
        (Inl e, st1) \<Rightarrow> (Inl e, st1)
      | (Inr del_list, st1) \<Rightarrow>
          let st2 = st1\<lparr>best_k_models := AList.update filepath current (best_k_models st1)\<rparr>
          in (case (if int (length (best_k_models st2)) = save_top_k st2 then
                      (case (if mode st2 = Min then py_max lib else py_min lib) (best_k_models st2) of
                         None \<Rightarrow> (Inl ValueError, st2)
                       | Some (p, v) \<Rightarrow>
                           (Inr (), st2\<lparr>kth_best_model_path := p, kth_value := Kth v\<rparr>))
                    else (Inr (), st2)) of
                (Inl e, st3) \<Rightarrow> (Inl e, st3)
              | (Inr _, st3) \<Rightarrow>
                  (case (if mode st3 = Min then py_min lib else py_max lib) (best_k_models st3) of
                     None \<Rightarrow> (Inl ValueError, st3)
                   | Some (p, v) \<Rightarrow>
                       let st4 = st3\<lparr>best_model_path := p, best_model_score := PyTensor v\<rparr>;
                           st5 = (if verbose st4 then log_info (ReachedTopK epoch filepath) st4
                                  else st4)
                       in (case save_model filepath st5 of
                             (Inl e, st6) \<Rightarrow> (Inl e, st6)
                           | (Inr _, st6) \<Rightarrow>
                               (Inr (),
                                fold (\<lambda>cur_path s. if cur_path \<noteq> filepath
                                                    then del_model cur_path s else s)
                                  del_list st6)))))"

text \<open>\<open>_save_top_k_checkpoints\<close>. A value that is neither a tensor nor \<open>None\<close> is
  converted first, which may raise.\<close>

definition save_top_k_checkpoints ::
  "'t torch \<Rightarrow> nat \<Rightarrow> int \<Rightarrow> string \<Rightarrow> 't state \<Rightarrow> (exn + unit) \<times> 't state" where
  "save_top_k_checkpoints lib mref epoch filepath st =
     (case (case monitor st of None \<Rightarrow> None | Some k \<Rightarrow> map_of (dicts st ! mref) k) of
        None \<Rightarrow>
          (Inr (),
           rank_zero_warn (if monitor st = Some ''checkpoint_on'' then NoCheckpointOn
                           else MonitorNotAvailable (monitor st)) st)
      | Some c \<Rightarrow>
          (case as_tensor lib c of
             Inl e \<Rightarrow> (Inl e, st)
           | Inr current \<Rightarrow>
               (case check_monitor_top_k lib (PyTensor current) st of
                  (Inl e, st1) \<Rightarrow> (Inl e, st1)
                | (Inr b, st1) \<Rightarrow>
                    if b then do_check_save lib filepath current epoch st1
                    else (Inr (), if verbose st1 then log_info (NotInTopK epoch) st1 else st1))))"

subsection \<open>\<open>save_checkpoint\<close>\<close>

text \<open>The first test is the decorator \<open>rank_zero_only\<close>, which runs the method on the
  process of rank 0 only; the others are the method's own.\<close>

definition save_checkpoint ::
  "'t formatter \<Rightarrow> 't torch \<Rightarrow> trainer \<Rightarrow> 't state \<Rightarrow> (exn + unit) \<times> 't state" where
  "save_checkpoint fmt lib tr st =
     (if rank st \<noteq> 0 then (Inr (), st)
      else if global_rank tr \<noteq> 0 then (Inr (), st)
      else if save_top_k st = 0 then (Inr (), st)
      else if running_sanity_check tr then (Inr (), st)
      else if should_skip_epoch tr st then (Inr (), st)
      else
        case validate_monitor_key tr (add_backward_monitor_support tr st) of
          (Inl e, st1) \<Rightarrow> (Inl e, st1)
        | (Inr _, st1) \<Rightarrow>
            let epoch = current_epoch tr;
                st2 = st1\<lparr>epoch_last_check := Some (current_epoch tr)\<rparr>;
                (mref, st3) = monitor_candidates tr st2
            in (case get_metric_interpolated_filepath_name fmt epoch mref st3 of
                  (Inl e, st4) \<Rightarrow> (Inl e, st4)
                | (Inr filepath, st4) \<Rightarrow>
                    (case save_last_checkpoint fmt epoch mref filepath st4 of
                       (Inl e, st5) \<Rightarrow> (Inl e, st5)
                     | (Inr _, st5) \<Rightarrow>
                         if monitor st5 \<noteq> None then
                           (if save_top_k st5 = - 1
                            then save_all_checkpoints tr epoch filepath st5
                            else save_top_k_checkpoints lib mref epoch filepath st5)
                         else (Inr (), st5))))"

text \<open>
  The state after a sequence of invocations, one trainer snapshot for each. An invocation
  that raises leaves the changes it made before; a caller that stops at the first exception
  sees the states of a prefix of the sequence.
\<close>

fun save_checkpoints ::
  "'t formatter \<Rightarrow> 't torch \<Rightarrow> trainer list \<Rightarrow> 't state \<Rightarrow> 't state" where
  "save_checkpoints fmt lib [] st = st"
| "save_checkpoints fmt lib (tr # trs) st =
     save_checkpoints fmt lib trs (snd (save_checkpoint fmt lib tr st))"

section \<open>Notions used in the statements\<close>

text \<open>
  \<open>config\<close>: the attributes the constructor takes from its arguments.
  \<open>attrs\<close>: the attributes no method called after the validation of the monitor key
  assigns. \<open>passes_gate\<close>: none of the early returns of \<open>save_checkpoint\<close> is
  taken. \<open>dicts_changed mref st st'\<close>: the two states differ at most in the
  dictionary of reference \<open>mref\<close> or in dictionaries of later references.
  \<open>candidate dir fname n\<close>: the \<open>n\<close>-th path the collision probing tries, first
  the one without a version, then versions 0, 1, 2, and so on.
  \<open>rewrite_template\<close> and \<open>default_names\<close>: what the loop over the groups does
  to the template and to the dictionary.
\<close>

definition config :: "'t state \<Rightarrow> string option \<times> monitor_mode \<times> int \<times> int \<times> bool \<times> bool \<times> string" where
  "config st = (monitor st, mode st, save_top_k st, period st, save_last st,
                save_weights_only st, prefix st)"

definition attrs :: "'t state \<Rightarrow> (string option \<times> monitor_mode \<times> int \<times> int \<times> bool \<times> bool \<times> string)
    \<times> int option \<times> bool \<times> string option \<times> string option \<times> bool \<times> int \<times> bool" where
  "attrs st = (config st, epoch_last_check st, verbose st, dirpath st, filename st,
               save_function st, rank st, warned_result_obj st)"

definition passes_gate :: "trainer \<Rightarrow> 't state \<Rightarrow> bool" where
  "passes_gate tr st \<longleftrightarrow>
     rank st = 0 \<and> global_rank tr = 0 \<and> save_top_k st \<noteq> 0 \<and> \<not> running_sanity_check tr
     \<and> \<not> should_skip_epoch tr st"

definition dicts_changed :: "nat \<Rightarrow> 't state \<Rightarrow> 't state \<Rightarrow> bool" where
  "dicts_changed mref st st' \<longleftrightarrow>
     (\<exists>ds. st' = st\<lparr>dicts := ds\<rparr> \<and> length ds = length (dicts st)
          \<and> (\<forall>n\<le>mref. take n ds = take n (dicts st)))"

definition candidate :: "string option \<Rightarrow> string \<Rightarrow> nat \<Rightarrow> string" where
  "candidate dir fname n =
     (case n of
        0 \<Rightarrow> ckpt_path dir (fname @ ''.ckpt'')
      | Suc v \<Rightarrow> ckpt_path dir (fname @ ''-v'' @ str_nat v @ ''.ckpt''))"

definition rewrite_template :: "string list \<Rightarrow> string \<Rightarrow> string" where
  "rewrite_template gs f = fold (\<lambda>g. str_replace g (tl g @ ''={'' @ tl g)) gs f"

definition default_names :: "string list \<Rightarrow> 't metrics \<Rightarrow> 't metrics" where
  "default_names gs m =
     fold (\<lambda>g m. if map_of m (tl g) = None then AList.update (tl g) (PyInt 0) m else m) gs m"

definition after_candidates :: "trainer \<Rightarrow> 't state \<Rightarrow> 't state" where
  "after_candidates tr st =
     snd (monitor_candidates tr
            ((add_backward_monitor_support tr st)\<lparr>epoch_last_check := Some (current_epoch tr)\<rparr>))"

definition placeholder_names :: "string option \<Rightarrow> string set" where
  "placeholder_names fname =
     (let gs = re_findall_groups
                 (case fname of None \<Rightarrow> ''{epoch}'' | Some f \<Rightarrow> if f = [] then ''{epoch}'' else f)
      in if gs = [] then {} else insert ''epoch'' (tl ` set gs))"

definition last_filepath :: "string \<Rightarrow> string \<Rightarrow> 't state \<Rightarrow> string" where
  "last_filepath d filepath st =
     (if save_last st
      then path_join d
             (str_join CHECKPOINT_JOIN_CHAR (filter (\<lambda>t. t \<noteq> []) [prefix st, CHECKPOINT_NAME_LAST])
              @ ''.ckpt'')
      else filepath)"


section \<open>Example objects\<close>

text \<open>
  A stand-in for the library in the examples. Its tensors are 0-dim tensors of one floating
  dtype, each named by the real number it holds, so that \<open>torch.lt\<close> and
  \<open>torch.gt\<close> are the order of the reals; \<open>torch.tensor\<close> raises \<open>RuntimeError\<close>
  on an int outside the 64-bit range, is given on the ints that every dtype holds exactly,
  and is \<open>NotModelled\<close> elsewhere.
\<close>

definition exact_torch :: "real torch" where
  "exact_torch =
     \<lparr>torch_lt = (\<lambda>a b. a < b), torch_gt = (\<lambda>a b. b < a),
      torch_tensor = (\<lambda>v. case v of
                              PyInt i \<Rightarrow>
                                if i < - (2 ^ 63) \<or> 2 ^ 63 \<le> i then Inl RuntimeError
                                else if \<bar>i\<bar> \<le> 2 ^ 24 then Inr (of_int i)
                                else Inl NotModelled
                            | _ \<Rightarrow> Inl NotModelled)\<rparr>"

text \<open>\<open>ModelCheckpoint(filepath='ckpts', monitor='val_loss')\<close> on the process of rank 0,
  with the save function set, an empty storage, and a trainer whose callback metrics hold
  \<open>val_loss = 0.5\<close>; \<open>example_full\<close> is the same object with one checkpoint kept.\<close>

definition example_ckpt :: "real state" where
  "example_ckpt =
     (snd (init (Some ''ckpts'') None (Some ''val_loss'') False False 1 False ''auto'' 1 []
             [] [[(''val_loss'', PyTensor (1 / 2))], [], []] 0))
       \<lparr>save_function := True\<rparr>"

definition example_trainer :: trainer where
  "example_trainer =
     \<lparr>global_rank = 0, running_sanity_check = False, current_epoch = 0,
      logged_metrics = 1, callback_metrics = 0, progress_bar_metrics = 2\<rparr>"

definition example_full :: "real state" where
  "example_full =
     example_ckpt\<lparr>best_k_models := [(''ckpts/epoch=0.ckpt'', 1 / 2)],
                  kth_best_model_path := ''ckpts/epoch=0.ckpt'',
                  best_model_path := ''ckpts/epoch=0.ckpt'',
                  best_model_score := PyTensor (1 / 2),
                  files := [''ckpts/epoch=0.ckpt'']\<rparr>"

definition example_taken :: "real state" where
  "example_taken = example_ckpt\<lparr>files := [''ckpts/epoch=0.ckpt'', ''ckpts/epoch=0-v0.ckpt'']\<rparr>"

definition example_default :: "real state" where
  "example_default =
     (snd (init (Some ''ckpts'') None None False False 1 False ''auto'' 1 []
             [] [[(''val_loss'', PyTensor (1 / 2))], [], []] 0))
       \<lparr>save_function := True\<rparr>"

definition example_no_key :: "real state" where
  "example_no_key = example_ckpt\<lparr>dicts := [[(''acc'', PyTensor (9 / 10))], [], []]\<rparr>"


definition example_both :: "real state" where
  "example_both =
     example_default\<lparr>dicts := [[(''checkpoint_on'', PyTensor (1 / 4)),
                                 (''val_loss'', PyTensor (1 / 2))], [], []]\<rparr>"

definition example_on :: "real state" where
  "example_on = example_default\<lparr>dicts := [[(''checkpoint_on'', PyTensor (1 / 4))], [], []]\<rparr>"

text \<open>\<open>ModelCheckpoint(filepath='ckpts/{epoch}-{score:.2f}', prefix='run')\<close> with the
  metrics \<open>{score: 0.1234}\<close>, the score being the double nearest to 0.1234.\<close>

definition example_run :: "real state" where
  "example_run =
     (snd (init (Some ''ckpts'') (Some ''{epoch}-{score:.2f}'') None False False 1 False ''auto'' 1
             ''run'' [] [[(''score'', PyFloat (Fin (8891907104280307 / 72057594037927936)))]] 0))
       \<lparr>save_function := True\<rparr>"

section \<open>Facts about the library functions\<close>

lemma example_ckpt_eq:
  "example_ckpt =
     \<lparr>monitor = Some ''val_loss'', verbose = False, save_last = False, save_top_k = 1,
      save_weights_only = False, period = 1, epoch_last_check = None, prefix = [],
      best_k_models = [], kth_best_model_path = [], best_model_score = PyInt 0,
      best_model_path = [], last_model_path = [], save_function = True,
      warned_result_obj = False, kth_value = PosInf, mode = Min, dirpath = Some ''ckpts'',
      filename = None, files = [], dicts = [[(''val_loss'', PyTensor (1 / 2))], [], []],
      warnings = [], infos = [], saved = [], rank = 0\<rparr>"
  by (simp add: example_ckpt_def init_def init_monitor_mode_def mode_dict_def
      validate_init_configuration_def)

lemma startswith_iff: "startswith p s \<longleftrightarrow> (\<exists>r. s = p @ r)"
  by (induction p s rule: startswith.induct) auto

lemma str_in_iff: "str_in sub s \<longleftrightarrow> (\<exists>a b. s = a @ sub @ b)"
proof (induction s)
  case Nil
  then show ?case by simp
next
  case (Cons c cs)
  show ?case
  proof
    assume "str_in sub (c # cs)"
    then consider "startswith sub (c # cs)" | "str_in sub cs" by auto
    then show "\<exists>a b. c # cs = a @ sub @ b"
    proof cases
      case 1
      then obtain r where "c # cs = sub @ r" by (auto simp: startswith_iff)
      then have "c # cs = [] @ sub @ r" by simp
      then show ?thesis by blast
    next
      case 2
      then obtain a b where "cs = a @ sub @ b" using Cons.IH by blast
      then have "c # cs = (c # a) @ sub @ b" by simp
      then show ?thesis by blast
    qed
  next
    assume "\<exists>a b. c # cs = a @ sub @ b"
    then obtain a b where ab: "c # cs = a @ sub @ b" by blast
    show "str_in sub (c # cs)"
    proof (cases a)
      case Nil
      with ab have "startswith sub (c # cs)" by (auto simp: startswith_iff)
      then show ?thesis by simp
    next
      case (Cons x a')
      with ab have "cs = a' @ sub @ b" by simp
      then have "str_in sub cs" using Cons.IH by blast
      then show ?thesis by simp
    qed
  qed
qed

section \<open>The monitor mode resolver\<close>

text \<open>
  C5. With the mode string \<open>auto\<close> the direction is \<open>Max\<close> exactly when the monitor key
  contains \<open>acc\<close> or starts with \<open>fmeasure\<close>, and \<open>Min\<close> otherwise (also without a
  monitor key); the sentinel is minus infinity for \<open>Max\<close> and plus infinity for \<open>Min\<close>;
  \<open>val_acc\<close> gives \<open>Max\<close>, \<open>val_loss\<close> gives \<open>Min\<close>, \<open>fmeasure_score\<close> gives
  \<open>Max\<close>; a mode string other than \<open>min\<close>, \<open>max\<close>, \<open>auto\<close> is reported by one
  warning and then resolved as \<open>auto\<close> is.
\<close>

theorem init_monitor_mode_auto:
  "init_monitor_mode (Some m) ''auto'' st =
     (Inr (),
      if (\<exists>a b. m = a @ ''acc'' @ b) \<or> (\<exists>r. m = ''fmeasure'' @ r)
      then st\<lparr>kth_value := NegInf, mode := Max\<rparr>
      else st\<lparr>kth_value := PosInf, mode := Min\<rparr>)
   \<and> init_monitor_mode None ''auto'' st = (Inr (), st\<lparr>kth_value := PosInf, mode := Min\<rparr>)
   \<and> mode (snd (init_monitor_mode (Some ''val_acc'') ''auto'' st)) = Max
   \<and> mode (snd (init_monitor_mode (Some ''val_loss'') ''auto'' st)) = Min
   \<and> mode (snd (init_monitor_mode (Some ''fmeasure_score'') ''auto'' st)) = Max
   \<and> (md \<notin> {''min'', ''max'', ''auto''} \<longrightarrow>
        init_monitor_mode mon md st =
          init_monitor_mode mon ''auto'' (rank_zero_warn (UnknownMode md) st)
        \<and> warnings (snd (init_monitor_mode mon md st)) = warnings st @ [UnknownMode md])"
proof -
  have auto_some: "init_monitor_mode (Some m) ''auto'' st =
     (Inr (),
      if (\<exists>a b. m = a @ ''acc'' @ b) \<or> (\<exists>r. m = ''fmeasure'' @ r)
      then st\<lparr>kth_value := NegInf, mode := Max\<rparr>
      else st\<lparr>kth_value := PosInf, mode := Min\<rparr>)"
    unfolding str_in_iff [symmetric] startswith_iff [symmetric]
    by (simp add: init_monitor_mode_def mode_dict_def)
  have auto_none: "init_monitor_mode None ''auto'' st = (Inr (), st\<lparr>kth_value := PosInf, mode := Min\<rparr>)"
    by (simp add: init_monitor_mode_def mode_dict_def)
  have ex1: "mode (snd (init_monitor_mode (Some ''val_acc'') ''auto'' st)) = Max"
    by (simp add: init_monitor_mode_def mode_dict_def)
  have ex2: "mode (snd (init_monitor_mode (Some ''val_loss'') ''auto'' st)) = Min"
    by (simp add: init_monitor_mode_def mode_dict_def)
  have ex3: "mode (snd (init_monitor_mode (Some ''fmeasure_score'') ''auto'' st)) = Max"
    by (simp add: init_monitor_mode_def mode_dict_def)
  have unknown: "md \<notin> {''min'', ''max'', ''auto''} \<longrightarrow>
        init_monitor_mode mon md st =
          init_monitor_mode mon ''auto'' (rank_zero_warn (UnknownMode md) st)
        \<and> warnings (snd (init_monitor_mode mon md st)) = warnings st @ [UnknownMode md]"
    by (cases mon) (auto simp: init_monitor_mode_def mode_dict_def rank_zero_warn_def)
  from auto_some auto_none ex1 ex2 ex3 unknown show ?thesis by blast
qed

theorem init_monitor_mode_auto_witness:
  "''best'' \<notin> {''min'', ''max'', ''auto''}
   \<and> init_monitor_mode (Some ''val_acc'') ''best'' example_ckpt =
       init_monitor_mode (Some ''val_acc'') ''auto''
         (rank_zero_warn (UnknownMode ''best'') example_ckpt)
   \<and> mode (snd (init_monitor_mode (Some ''val_acc'') ''best'' example_ckpt)) = Max
   \<and> warnings (snd (init_monitor_mode (Some ''val_acc'') ''best'' example_ckpt)) =
       [UnknownMode ''best'']"
proof -
  have h: "''best'' \<notin> {''min'', ''max'', ''auto''}" by simp
  have w0: "warnings example_ckpt = []" by (simp add: example_ckpt_eq)
  from init_monitor_mode_auto [where m = "''val_acc''" and md = "''best''"
      and mon = "Some ''val_acc''" and st = example_ckpt] h
  have e: "init_monitor_mode (Some ''val_acc'') ''best'' example_ckpt =
       init_monitor_mode (Some ''val_acc'') ''auto''
         (rank_zero_warn (UnknownMode ''best'') example_ckpt)"
    and w: "warnings (snd (init_monitor_mode (Some ''val_acc'') ''best'' example_ckpt)) =
       warnings example_ckpt @ [UnknownMode ''best'']"
    by blast+
  from init_monitor_mode_auto [where m = "''val_acc''" and md = "''best''"
      and mon = "Some ''val_acc''" and st = "rank_zero_warn (UnknownMode ''best'') example_ckpt"]
  have m: "mode (snd (init_monitor_mode (Some ''val_acc'') ''auto''
                  (rank_zero_warn (UnknownMode ''best'') example_ckpt))) = Max"
    by blast
  show ?thesis using h e w m w0 by simp
qed

section \<open>The decision to save\<close>



lemma as_tensor_PyTensor [simp]: "as_tensor lib (PyTensor t) = Inr t"
  by (simp add: as_tensor_def)




section \<open>What each method leaves unchanged\<close>

lemma seq_proj:
  "(\<And>a s. g (snd (f a s)) = g s) \<Longrightarrow>
   g (snd (case m of (Inl e, s) \<Rightarrow> (Inl e, s) | (Inr a, s) \<Rightarrow> f a s)) = g (snd m)"
  by (cases m) (auto split: sum.splits)

lemma attrs_update [simp]:
  "attrs (st\<lparr>best_k_models := b\<rparr>) = attrs st"
  "attrs (st\<lparr>kth_best_model_path := p\<rparr>) = attrs st"
  "attrs (st\<lparr>kth_value := v\<rparr>) = attrs st"
  "attrs (st\<lparr>best_model_path := p\<rparr>) = attrs st"
  "attrs (st\<lparr>best_model_score := sc\<rparr>) = attrs st"
  "attrs (st\<lparr>last_model_path := p\<rparr>) = attrs st"
  "attrs (st\<lparr>dicts := ds\<rparr>) = attrs st"
  "attrs (st\<lparr>files := fs\<rparr>) = attrs st"
  "attrs (st\<lparr>saved := sv\<rparr>) = attrs st"
  "attrs (st\<lparr>warnings := ws\<rparr>) = attrs st"
  "attrs (st\<lparr>infos := is\<rparr>) = attrs st"
  by (simp_all add: attrs_def config_def)

lemma format_checkpoint_name_cls_only_dicts:
  "\<exists>ds. snd (format_checkpoint_name_cls fmt fname epoch mref pre st) = st\<lparr>dicts := ds\<rparr>
        \<and> length ds = length (dicts st) \<and> (\<forall>n\<le>mref. take n ds = take n (dicts st))"
proof -
  have id: "st = st\<lparr>dicts := dicts st\<rparr>" by simp
  show ?thesis
    unfolding format_checkpoint_name_cls_def Let_def
    by (auto split: prod.splits sum.splits intro: exI [of _ "dicts st"])
qed

lemma format_checkpoint_name_only_dicts:
  "\<exists>ds. snd (format_checkpoint_name fmt epoch mref ver st) = st\<lparr>dicts := ds\<rparr>
        \<and> length ds = length (dicts st) \<and> (\<forall>n\<le>mref. take n ds = take n (dicts st))"
  using format_checkpoint_name_cls_only_dicts [of fmt "filename st" epoch mref "prefix st" st]
  by (auto simp: format_checkpoint_name_def Let_def split: prod.splits sum.splits)

lemma dicts_changed_refl: "dicts_changed mref st st"
  unfolding dicts_changed_def by (rule exI [of _ "dicts st"]) simp

lemma dicts_changed_trans:
  "dicts_changed mref a b \<Longrightarrow> dicts_changed mref b c \<Longrightarrow> dicts_changed mref a c"
  unfolding dicts_changed_def by auto

lemma format_checkpoint_name_dicts_changed:
  "format_checkpoint_name fmt epoch mref ver st = (r, st') \<Longrightarrow> dicts_changed mref st st'"
  using format_checkpoint_name_only_dicts [of fmt epoch mref ver st]
  by (simp add: dicts_changed_def)

lemma while_exists_invariant:
  "(\<forall>v s r s'. format_checkpoint_name fmt epoch mref v s = (r, s') \<longrightarrow> P s \<longrightarrow> P s')
     \<Longrightarrow> P st \<Longrightarrow> P (snd (while_exists fmt epoch mref cnt fp st))"
proof (induction fmt epoch mref cnt fp st rule: while_exists.induct)
  case (1 fmt epoch mref version_cnt filepath st)
  show ?case
  proof (cases "fs_exists filepath st")
    case False
    then show ?thesis using "1.prems" by (subst while_exists.simps) simp
  next
    case True
    obtain r s1 where f: "format_checkpoint_name fmt epoch mref (Some (int version_cnt)) st = (r, s1)"
      by fastforce
    have P1: "P s1" using "1.prems" f by blast
    show ?thesis
    proof (cases r)
      case (Inl e)
      then show ?thesis using True f P1 by (subst while_exists.simps) simp
    next
      case (Inr p)
      have "P (snd (while_exists fmt epoch mref (version_cnt + 1) p s1))"
        using "1.IH" [OF True f [symmetric, unfolded Inr] refl] "1.prems"(1) P1 by blast
      then show ?thesis using True f Inr by (subst while_exists.simps) simp
    qed
  qed
qed

lemma while_exists_dicts_changed:
  "dicts_changed mref st (snd (while_exists fmt epoch mref cnt fp st))"
proof (rule while_exists_invariant [where P = "dicts_changed mref st"])
  show "\<forall>v s r s'. format_checkpoint_name fmt epoch mref v s = (r, s') \<longrightarrow>
          dicts_changed mref st s \<longrightarrow> dicts_changed mref st s'"
    by (blast intro: dicts_changed_trans format_checkpoint_name_dicts_changed)
  show "dicts_changed mref st st" by (rule dicts_changed_refl)
qed

lemma get_metric_interpolated_filepath_name_dicts_changed:
  "dicts_changed mref st (snd (get_metric_interpolated_filepath_name fmt epoch mref st))"
proof (cases "format_checkpoint_name fmt epoch mref None st")
  case (Pair r s1)
  then have c: "dicts_changed mref st s1" by (rule format_checkpoint_name_dicts_changed)
  show ?thesis
  proof (cases r)
    case (Inl e)
    then show ?thesis using Pair c by (simp add: get_metric_interpolated_filepath_name_def)
  next
    case (Inr p)
    have "dicts_changed mref s1 (snd (while_exists fmt epoch mref 0 p s1))"
      by (rule while_exists_dicts_changed)
    then show ?thesis
      using Pair Inr c by (auto simp: get_metric_interpolated_filepath_name_def intro: dicts_changed_trans)
  qed
qed

section \<open>The file name formatter and the collision probing\<close>

lemma fold_rewrite_group:
  "fold rewrite_group gs (f, m) = (rewrite_template gs f, default_names gs m)"
  by (induction gs arbitrary: f m)
     (simp_all add: rewrite_template_def default_names_def rewrite_group_def Let_def)

lemma map_of_default_names:
  "map_of (default_names gs m) k =
     (if map_of m k = None \<and> k \<in> tl ` set gs then Some (PyInt 0) else map_of m k)"
proof (induction gs arbitrary: m)
  case Nil
  then show ?case by (simp add: default_names_def)
next
  case (Cons g gs)
  have step: "default_names (g # gs) m =
      default_names gs (if map_of m (tl g) = None then AList.update (tl g) (PyInt 0) m else m)"
    by (simp add: default_names_def)
  show ?case unfolding step Cons.IH by (auto simp: update_conv')
qed

lemma default_names_present:
  "(\<forall>g\<in>set gs. map_of m (tl g) \<noteq> None) \<Longrightarrow> default_names gs m = m"
  by (induction gs arbitrary: m) (auto simp: default_names_def)

lemma default_names_idem: "default_names gs (default_names gs m) = default_names gs m"
  by (rule default_names_present) (auto simp: map_of_default_names)

lemma format_checkpoint_name_cls_again:
  assumes "format_checkpoint_name_cls fmt fname epoch mref pre st = (r, st1)"
  shows "format_checkpoint_name_cls fmt fname epoch mref pre st1 = (r, st1)"
proof -
  define fname0 where "fname0 = (case fname of None \<Rightarrow> ''{epoch}'' | Some f \<Rightarrow> if f = [] then ''{epoch}'' else f)"
  define gs where "gs = re_findall_groups fname0"
  show ?thesis
  proof (cases "gs = []")
    case True
    then show ?thesis using assms
      by (auto simp: format_checkpoint_name_cls_def Let_def fname0_def gs_def)
  next
    case False
    define m1 where "m1 = default_names gs (AList.update ''epoch'' (PyInt epoch) (dicts st ! mref))"
    have st1: "st1 = st\<lparr>dicts := (dicts st)[mref := m1]\<rparr>"
      and r: "r = (case fmt (rewrite_template gs fname0) m1 of
                     Inl e \<Rightarrow> Inl e
                   | Inr txt \<Rightarrow> Inr (str_join CHECKPOINT_JOIN_CHAR (filter (\<lambda>t. t \<noteq> []) [pre, txt])))"
      using assms False
      by (auto simp: format_checkpoint_name_cls_def Let_def fname0_def gs_def m1_def
          fold_rewrite_group split: sum.splits)
    show ?thesis
    proof (cases "mref < length (dicts st)")
      case out: False
      then have "(dicts st)[mref := m1] = dicts st" by (simp add: list_update_beyond)
      then have "st1 = st" using st1 by simp
      then show ?thesis using assms by simp
    next
      case True
      have e: "map_of m1 ''epoch'' = Some (PyInt epoch)"
        by (simp add: m1_def map_of_default_names update_conv')
      have m: "dicts st1 ! mref = m1" using st1 True by simp
      have u: "AList.update ''epoch'' (PyInt epoch) m1 = m1"
        using e by (rule update_triv)
      have d: "default_names gs m1 = m1"
        unfolding m1_def by (rule default_names_idem)
      have s: "st1\<lparr>dicts := (dicts st1)[mref := m1]\<rparr> = st1"
        using st1 by simp
      show ?thesis
        using False r
        by (simp add: format_checkpoint_name_cls_def Let_def fname0_def [symmetric]
            gs_def [symmetric] fold_rewrite_group m u d s split: sum.splits)
    qed
  qed
qed

lemma format_checkpoint_name_again:
  assumes "format_checkpoint_name_cls fmt (filename st) epoch mref (prefix st) st = (Inr fname, st1)"
  shows "format_checkpoint_name fmt epoch mref None st = (Inr (candidate (dirpath st) fname 0), st1)"
    and "format_checkpoint_name fmt epoch mref None st1 = (Inr (candidate (dirpath st) fname 0), st1)"
    and "format_checkpoint_name fmt epoch mref (Some (int v)) st1 =
           (Inr (candidate (dirpath st) fname (Suc v)), st1)"
proof -
  obtain ds where ds: "st1 = st\<lparr>dicts := ds\<rparr>"
    using format_checkpoint_name_cls_only_dicts [of fmt "filename st" epoch mref "prefix st" st] assms
    by auto
  have a: "format_checkpoint_name_cls fmt (filename st1) epoch mref (prefix st1) st1 = (Inr fname, st1)"
    using format_checkpoint_name_cls_again [OF assms] ds by simp
  show "format_checkpoint_name fmt epoch mref None st = (Inr (candidate (dirpath st) fname 0), st1)"
    using assms ds by (simp add: format_checkpoint_name_def candidate_def)
  show "format_checkpoint_name fmt epoch mref None st1 = (Inr (candidate (dirpath st) fname 0), st1)"
    using a ds by (simp add: format_checkpoint_name_def candidate_def)
  show "format_checkpoint_name fmt epoch mref (Some (int v)) st1 =
           (Inr (candidate (dirpath st) fname (Suc v)), st1)"
    using a ds
    by (simp add: format_checkpoint_name_def candidate_def CHECKPOINT_JOIN_CHAR_def str_int_def)
qed

lemma while_exists_first_free:
  "(\<forall>v. format_checkpoint_name fmt epoch mref (Some (int v)) st = (Inr (c v), st)) \<Longrightarrow>
   \<exists>n. while_exists fmt epoch mref cnt fp st = (Inr (case n of 0 \<Rightarrow> fp | Suc k \<Rightarrow> c (cnt + k)), st)
       \<and> \<not> fs_exists (case n of 0 \<Rightarrow> fp | Suc k \<Rightarrow> c (cnt + k)) st
       \<and> (0 < n \<longrightarrow> fs_exists fp st)
       \<and> (\<forall>k. Suc k < n \<longrightarrow> fs_exists (c (cnt + k)) st)"
proof (induction fmt epoch mref cnt fp st rule: while_exists.induct)
  case (1 fmt epoch mref version_cnt filepath st)
  show ?case
  proof (cases "fs_exists filepath st")
    case False
    then have "while_exists fmt epoch mref version_cnt filepath st = (Inr filepath, st)"
      by (subst while_exists.simps) simp
    then show ?thesis using False by (intro exI [of _ 0]) simp
  next
    case True
    have f: "format_checkpoint_name fmt epoch mref (Some (int version_cnt)) st = (Inr (c version_cnt), st)"
      using "1.prems" by blast
    from "1.IH" [OF True f [symmetric] refl "1.prems"]
    obtain n where n:
      "while_exists fmt epoch mref (version_cnt + 1) (c version_cnt) st =
         (Inr (case n of 0 \<Rightarrow> c version_cnt | Suc k \<Rightarrow> c (version_cnt + 1 + k)), st)"
      "\<not> fs_exists (case n of 0 \<Rightarrow> c version_cnt | Suc k \<Rightarrow> c (version_cnt + 1 + k)) st"
      "0 < n \<longrightarrow> fs_exists (c version_cnt) st"
      "\<forall>k. Suc k < n \<longrightarrow> fs_exists (c (version_cnt + 1 + k)) st"
      by blast
    have w: "while_exists fmt epoch mref version_cnt filepath st =
             while_exists fmt epoch mref (version_cnt + 1) (c version_cnt) st"
      using True f by (subst while_exists.simps) simp
    have r: "(case Suc n of 0 \<Rightarrow> filepath | Suc k \<Rightarrow> c (version_cnt + k)) =
             (case n of 0 \<Rightarrow> c version_cnt | Suc k \<Rightarrow> c (version_cnt + 1 + k))"
      by (cases n) simp_all
    have all: "\<forall>k. Suc k < Suc n \<longrightarrow> fs_exists (c (version_cnt + k)) st"
    proof (intro allI impI)
      fix k assume k: "Suc k < Suc n"
      show "fs_exists (c (version_cnt + k)) st"
      proof (cases k)
        case 0
        then show ?thesis using n(3) k by simp
      next
        case (Suc j)
        then have "Suc j < n" using k by simp
        then show ?thesis using n(4) Suc by simp
      qed
    qed
    show ?thesis
      by (rule exI [of _ "Suc n"]) (use w n(1) n(2) r True all in simp)
  qed
qed

text \<open>
  C4. When the formatter renders the name \<open>fname\<close>,
  \<open>_get_metric_interpolated_filepath_name\<close> returns the first path that does not
  exist on the storage in the sequence \<open>candidate\<close>: the path without a version
  first, then the paths of versions 0, 1, 2, and so on; every path before it in the sequence
  exists, the returned one does not, and the storage is not touched. The loop always ends
  (\<open>while_exists\<close> is a total function). When the formatter raises, so does the
  method.
\<close>

theorem get_metric_interpolated_filepath_name_first_free:
  "(format_checkpoint_name_cls fmt (filename st) epoch mref (prefix st) st = (Inr fname, st1) \<longrightarrow>
      (\<exists>n. get_metric_interpolated_filepath_name fmt epoch mref st =
              (Inr (candidate (dirpath st) fname n), st1)
           \<and> \<not> fs_exists (candidate (dirpath st) fname n) st1
           \<and> (\<forall>i. i < n \<longrightarrow> fs_exists (candidate (dirpath st) fname i) st1))
      \<and> files st1 = files st)
   \<and> (format_checkpoint_name_cls fmt (filename st) epoch mref (prefix st) st = (Inl e, st1) \<longrightarrow>
        get_metric_interpolated_filepath_name fmt epoch mref st = (Inl e, st1))"
proof (intro conjI impI)
  assume a: "format_checkpoint_name_cls fmt (filename st) epoch mref (prefix st) st = (Inr fname, st1)"
  let ?c = "\<lambda>v. candidate (dirpath st) fname (Suc v)"
  let ?p0 = "candidate (dirpath st) fname 0"
  have first: "format_checkpoint_name fmt epoch mref None st = (Inr ?p0, st1)"
    using a by (rule format_checkpoint_name_again(1))
  have again: "\<forall>v. format_checkpoint_name fmt epoch mref (Some (int v)) st1 = (Inr (?c v), st1)"
    using format_checkpoint_name_again(3) [OF a] by blast
  from while_exists_first_free [OF again, of 0 ?p0]
  obtain n where n:
    "while_exists fmt epoch mref 0 ?p0 st1 = (Inr (case n of 0 \<Rightarrow> ?p0 | Suc k \<Rightarrow> ?c (0 + k)), st1)"
    "\<not> fs_exists (case n of 0 \<Rightarrow> ?p0 | Suc k \<Rightarrow> ?c (0 + k)) st1"
    "0 < n \<longrightarrow> fs_exists ?p0 st1"
    "\<forall>k. Suc k < n \<longrightarrow> fs_exists (?c (0 + k)) st1"
    by blast
  have r: "(case n of 0 \<Rightarrow> ?p0 | Suc k \<Rightarrow> ?c (0 + k)) = candidate (dirpath st) fname n"
    by (cases n) simp_all
  have all: "\<forall>i. i < n \<longrightarrow> fs_exists (candidate (dirpath st) fname i) st1"
  proof (intro allI impI)
    fix i assume i: "i < n"
    show "fs_exists (candidate (dirpath st) fname i) st1"
    proof (cases i)
      case 0
      then show ?thesis using n(3) i by simp
    next
      case (Suc j)
      then show ?thesis using n(4) i by simp
    qed
  qed
  have g: "get_metric_interpolated_filepath_name fmt epoch mref st =
             (Inr (candidate (dirpath st) fname n), st1)"
    using first n(1) r by (simp add: get_metric_interpolated_filepath_name_def)
  show "\<exists>n. get_metric_interpolated_filepath_name fmt epoch mref st =
              (Inr (candidate (dirpath st) fname n), st1)
           \<and> \<not> fs_exists (candidate (dirpath st) fname n) st1
           \<and> (\<forall>i. i < n \<longrightarrow> fs_exists (candidate (dirpath st) fname i) st1)"
    using g n(2) r all by (intro exI [of _ n]) simp
  show "files st1 = files st"
    using format_checkpoint_name_cls_only_dicts [of fmt "filename st" epoch mref "prefix st" st] a
    by auto
next
  assume "format_checkpoint_name_cls fmt (filename st) epoch mref (prefix st) st = (Inl e, st1)"
  then show "get_metric_interpolated_filepath_name fmt epoch mref st = (Inl e, st1)"
    by (simp add: get_metric_interpolated_filepath_name_def format_checkpoint_name_def)
qed

lemma format_epoch_example:
  "format_checkpoint_name_cls str_format None 0 0 [] example_taken =
     (Inr ''epoch=0'',
      example_taken\<lparr>dicts := [[(''val_loss'', PyTensor (1 / 2)), (''epoch'', PyInt 0)], [], []]\<rparr>)"
  by (simp add: example_taken_def example_ckpt_eq format_checkpoint_name_cls_def
      rewrite_group_def str_replace.simps
      CHECKPOINT_JOIN_CHAR_def render_field_def format_value_def parse_spec_def is_digit_def
      pad_number_def str_nat.simps digit_char_def Let_def)

theorem get_metric_interpolated_filepath_name_first_free_witness:
  "format_checkpoint_name_cls str_format (filename example_taken) 0 0 (prefix example_taken)
       example_taken =
     (Inr ''epoch=0'',
      example_taken\<lparr>dicts := [[(''val_loss'', PyTensor (1 / 2)), (''epoch'', PyInt 0)], [], []]\<rparr>)
   \<and> get_metric_interpolated_filepath_name str_format 0 0 example_taken =
       (Inr ''ckpts/epoch=0-v1.ckpt'',
        example_taken\<lparr>dicts := [[(''val_loss'', PyTensor (1 / 2)), (''epoch'', PyInt 0)], [], []]\<rparr>)
   \<and> \<not> fs_exists ''ckpts/epoch=0-v1.ckpt''
         (example_taken\<lparr>dicts := [[(''val_loss'', PyTensor (1 / 2)), (''epoch'', PyInt 0)], [], []]\<rparr>)
   \<and> fs_exists ''ckpts/epoch=0.ckpt'' example_taken
   \<and> fs_exists ''ckpts/epoch=0-v0.ckpt'' example_taken"
proof -
  let ?st1 = "example_taken\<lparr>dicts := [[(''val_loss'', PyTensor (1 / 2)), (''epoch'', PyInt 0)], [], []]\<rparr>"
  have fn: "filename example_taken = None" and pre: "prefix example_taken = []"
    and dir: "dirpath example_taken = Some ''ckpts''"
    by (simp_all add: example_taken_def example_ckpt_eq)
  have h: "format_checkpoint_name_cls str_format (filename example_taken) 0 0
             (prefix example_taken) example_taken = (Inr ''epoch=0'', ?st1)"
    unfolding fn pre by (rule format_epoch_example)
  have c0: "candidate (Some ''ckpts'') ''epoch=0'' 0 = ''ckpts/epoch=0.ckpt''"
    by (simp add: candidate_def ckpt_path_def path_join_def)
  have c1: "candidate (Some ''ckpts'') ''epoch=0'' 1 = ''ckpts/epoch=0-v0.ckpt''"
    by (simp add: candidate_def ckpt_path_def path_join_def str_nat.simps digit_char_def)
  have c2: "candidate (Some ''ckpts'') ''epoch=0'' 2 = ''ckpts/epoch=0-v1.ckpt''"
    by (simp add: candidate_def ckpt_path_def path_join_def str_nat.simps digit_char_def)
  have e0: "fs_exists ''ckpts/epoch=0.ckpt'' ?st1" and e1: "fs_exists ''ckpts/epoch=0-v0.ckpt'' ?st1"
    and e2: "\<not> fs_exists ''ckpts/epoch=0-v1.ckpt'' ?st1"
    by (simp_all add: fs_exists_def example_taken_def)
  from get_metric_interpolated_filepath_name_first_free
         [where fmt = str_format and st = example_taken and epoch = 0 and mref = 0
            and fname = "''epoch=0''" and ?st1.0 = ?st1] h
  obtain n where n:
    "get_metric_interpolated_filepath_name str_format 0 0 example_taken =
       (Inr (candidate (dirpath example_taken) ''epoch=0'' n), ?st1)"
    "\<not> fs_exists (candidate (dirpath example_taken) ''epoch=0'' n) ?st1"
    "\<forall>i. i < n \<longrightarrow> fs_exists (candidate (dirpath example_taken) ''epoch=0'' i) ?st1"
    by blast
  have "n \<noteq> 0"
  proof
    assume "n = 0"
    with n(2) c0 dir e0 show False by simp
  qed
  moreover have "n \<noteq> 1"
  proof
    assume "n = 1"
    with n(2) c1 dir e1 show False by simp
  qed
  moreover have "\<not> 2 < n"
  proof
    assume "2 < n"
    with n(3) have "fs_exists (candidate (dirpath example_taken) ''epoch=0'' 2) ?st1" by blast
    with c2 dir e2 show False by simp
  qed
  ultimately have "n = 2" by arith
  then show ?thesis
    using h n(1) c2 dir e2 by (simp add: fs_exists_def example_taken_def)
qed

section \<open>What the two modes leave unchanged\<close>

lemmas seq_attrs = seq_proj [where g = attrs]
lemmas seq_dicts = seq_proj [where g = dicts]
lemmas seq_best_k = seq_proj [where g = best_k_models]
lemmas seq_kth = seq_proj [where g = kth_best_model_path]

lemma format_checkpoint_name_cls_last:
  "format_checkpoint_name_cls fmt (Some CHECKPOINT_NAME_LAST) epoch mref pre st =
     (Inr (str_join CHECKPOINT_JOIN_CHAR (filter (\<lambda>t. t \<noteq> []) [pre, CHECKPOINT_NAME_LAST])), st)"
  by (simp add: format_checkpoint_name_cls_def CHECKPOINT_NAME_LAST_def)

lemma save_model_keeps [simp]:
  "attrs (snd (save_model filepath st)) = attrs st"
  "dicts (snd (save_model filepath st)) = dicts st"
  "best_k_models (snd (save_model filepath st)) = best_k_models st"
  "kth_best_model_path (snd (save_model filepath st)) = kth_best_model_path st"
  "warnings (snd (save_model filepath st)) = warnings st"
  by (simp_all add: save_model_def call_save_function_def)

lemma del_model_keeps [simp]:
  "attrs (del_model filepath st) = attrs st"
  "dicts (del_model filepath st) = dicts st"
  "best_k_models (del_model filepath st) = best_k_models st"
  "kth_best_model_path (del_model filepath st) = kth_best_model_path st"
  "warnings (del_model filepath st) = warnings st"
  "saved (del_model filepath st) = saved st"
  by (simp_all add: del_model_def fs_rm_def)

lemma log_info_keeps [simp]:
  "attrs (log_info i st) = attrs st"
  "dicts (log_info i st) = dicts st"
  "best_k_models (log_info i st) = best_k_models st"
  "kth_best_model_path (log_info i st) = kth_best_model_path st"
  "warnings (log_info i st) = warnings st"
  "saved (log_info i st) = saved st"
  "files (log_info i st) = files st"
  by (simp_all add: log_info_def)

lemma rank_zero_warn_keeps [simp]:
  "attrs (rank_zero_warn w st) = attrs st"
  "dicts (rank_zero_warn w st) = dicts st"
  "best_k_models (rank_zero_warn w st) = best_k_models st"
  "kth_best_model_path (rank_zero_warn w st) = kth_best_model_path st"
  "saved (rank_zero_warn w st) = saved st"
  "files (rank_zero_warn w st) = files st"
  by (simp_all add: rank_zero_warn_def)

lemma save_last_checkpoint_keeps [simp]:
  "attrs (snd (save_last_checkpoint fmt epoch mref filepath st)) = attrs st"
  "dicts (snd (save_last_checkpoint fmt epoch mref filepath st)) = dicts st"
  "best_k_models (snd (save_last_checkpoint fmt epoch mref filepath st)) = best_k_models st"
  "kth_best_model_path (snd (save_last_checkpoint fmt epoch mref filepath st)) = kth_best_model_path st"
  "warnings (snd (save_last_checkpoint fmt epoch mref filepath st)) = warnings st"
  unfolding save_last_checkpoint_def format_checkpoint_name_cls_last Let_def
  by (simp_all add: seq_attrs seq_dicts seq_best_k seq_kth seq_proj [where g = warnings]
      split: option.splits)

lemma save_all_checkpoints_keeps [simp]:
  "attrs (snd (save_all_checkpoints tr epoch filepath st)) = attrs st"
  "dicts (snd (save_all_checkpoints tr epoch filepath st)) = dicts st"
  "best_k_models (snd (save_all_checkpoints tr epoch filepath st)) = best_k_models st"
  "kth_best_model_path (snd (save_all_checkpoints tr epoch filepath st)) = kth_best_model_path st"
  "warnings (snd (save_all_checkpoints tr epoch filepath st)) = warnings st"
  by (simp_all add: save_all_checkpoints_def Let_def)

lemma check_monitor_top_k_keeps [simp]:
  "attrs (snd (check_monitor_top_k lib current st)) = attrs st"
  "dicts (snd (check_monitor_top_k lib current st)) = dicts st"
  "best_k_models (snd (check_monitor_top_k lib current st)) = best_k_models st"
  "kth_best_model_path (snd (check_monitor_top_k lib current st)) = kth_best_model_path st"
  by (simp_all add: check_monitor_top_k_def Let_def split: option.splits sum.splits)

lemma fold_del_model_keeps [simp]:
  "attrs (fold (\<lambda>cur_path s. if cur_path \<noteq> filepath then del_model cur_path s else s) ps st) = attrs st"
  "dicts (fold (\<lambda>cur_path s. if cur_path \<noteq> filepath then del_model cur_path s else s) ps st) = dicts st"
  "best_k_models (fold (\<lambda>cur_path s. if cur_path \<noteq> filepath then del_model cur_path s else s) ps st)
     = best_k_models st"
  "kth_best_model_path (fold (\<lambda>cur_path s. if cur_path \<noteq> filepath then del_model cur_path s else s) ps st)
     = kth_best_model_path st"
  by (induction ps arbitrary: st) simp_all

lemma do_check_save_keeps [simp]:
  "attrs (snd (do_check_save lib filepath current epoch st)) = attrs st"
  "dicts (snd (do_check_save lib filepath current epoch st)) = dicts st"
  unfolding do_check_save_def Let_def
  by (simp_all add: seq_attrs seq_dicts split: option.splits)

lemma save_top_k_checkpoints_keeps [simp]:
  "attrs (snd (save_top_k_checkpoints lib mref epoch filepath st)) = attrs st"
  "dicts (snd (save_top_k_checkpoints lib mref epoch filepath st)) = dicts st"
  unfolding save_top_k_checkpoints_def Let_def
  by (simp_all add: seq_attrs seq_dicts split: option.splits sum.splits)

lemma dicts_changed_keeps:
  assumes "dicts_changed mref st st'"
  shows "attrs st' = attrs st" "best_k_models st' = best_k_models st"
    "kth_best_model_path st' = kth_best_model_path st" "warnings st' = warnings st"
    "files st' = files st" "saved st' = saved st" "last_model_path st' = last_model_path st"
    "best_model_path st' = best_model_path st" "length (dicts st') = length (dicts st)"
    "n \<le> mref \<Longrightarrow> take n (dicts st') = take n (dicts st)"
  using assms by (auto simp: dicts_changed_def)

lemma get_metric_interpolated_filepath_name_keeps [simp]:
  "attrs (snd (get_metric_interpolated_filepath_name fmt epoch mref st)) = attrs st"
  "best_k_models (snd (get_metric_interpolated_filepath_name fmt epoch mref st)) = best_k_models st"
  "kth_best_model_path (snd (get_metric_interpolated_filepath_name fmt epoch mref st)) =
     kth_best_model_path st"
  "warnings (snd (get_metric_interpolated_filepath_name fmt epoch mref st)) = warnings st"
  "files (snd (get_metric_interpolated_filepath_name fmt epoch mref st)) = files st"
  "saved (snd (get_metric_interpolated_filepath_name fmt epoch mref st)) = saved st"
  "length (dicts (snd (get_metric_interpolated_filepath_name fmt epoch mref st))) = length (dicts st)"
  using dicts_changed_keeps [OF get_metric_interpolated_filepath_name_dicts_changed [of mref st fmt epoch]]
  by simp_all

lemma get_metric_interpolated_filepath_name_take:
  "n \<le> mref \<Longrightarrow>
     take n (dicts (snd (get_metric_interpolated_filepath_name fmt epoch mref st))) = take n (dicts st)"
  using dicts_changed_keeps (10) [OF get_metric_interpolated_filepath_name_dicts_changed [of mref st fmt epoch]]
  by simp

lemma add_backward_monitor_support_keeps [simp]:
  "dicts (add_backward_monitor_support tr st) = dicts st"
  "best_k_models (add_backward_monitor_support tr st) = best_k_models st"
  "kth_best_model_path (add_backward_monitor_support tr st) = kth_best_model_path st"
  "epoch_last_check (add_backward_monitor_support tr st) = epoch_last_check st"
  "mode (add_backward_monitor_support tr st) = mode st"
  "save_top_k (add_backward_monitor_support tr st) = save_top_k st"
  "period (add_backward_monitor_support tr st) = period st"
  "save_last (add_backward_monitor_support tr st) = save_last st"
  "save_weights_only (add_backward_monitor_support tr st) = save_weights_only st"
  "prefix (add_backward_monitor_support tr st) = prefix st"
  "rank (add_backward_monitor_support tr st) = rank st"
  "files (add_backward_monitor_support tr st) = files st"
  "saved (add_backward_monitor_support tr st) = saved st"
  "warnings (add_backward_monitor_support tr st) = warnings st"
  by (simp_all add: add_backward_monitor_support_def Let_def)

lemma add_backward_monitor_support_monitor:
  "monitor (add_backward_monitor_support tr st) =
     (if monitor st \<noteq> None then monitor st
      else if map_of (dicts st ! callback_metrics tr) ''val_loss'' \<noteq> None then Some ''val_loss''
      else if map_of (dicts st ! callback_metrics tr) ''checkpoint_on'' \<noteq> None
           then Some ''checkpoint_on''
      else None)"
  by (simp add: add_backward_monitor_support_def Let_def)

lemma save_checkpoint_skip:
  "\<not> passes_gate tr st \<Longrightarrow> save_checkpoint fmt lib tr st = (Inr (), st)"
  by (auto simp: save_checkpoint_def passes_gate_def)

lemma save_checkpoint_invalid:
  "passes_gate tr st \<Longrightarrow>
   fst (validate_monitor_key tr (add_backward_monitor_support tr st)) \<noteq> Inr () \<Longrightarrow>
   save_checkpoint fmt lib tr st = (Inl MisconfigurationException, add_backward_monitor_support tr st)"
  by (auto simp: save_checkpoint_def passes_gate_def validate_monitor_key_def Let_def
      split: if_splits)

lemma save_checkpoint_attrs:
  "passes_gate tr st \<Longrightarrow>
   fst (validate_monitor_key tr (add_backward_monitor_support tr st)) = Inr () \<Longrightarrow>
   attrs (snd (save_checkpoint fmt lib tr st)) =
     attrs ((add_backward_monitor_support tr st)\<lparr>epoch_last_check := Some (current_epoch tr)\<rparr>)"
  unfolding save_checkpoint_def passes_gate_def validate_monitor_key_def monitor_candidates_def
    Let_def
  by (auto simp: seq_attrs split: if_splits)

lemma save_checkpoint_dicts:
  "take (length (dicts st)) (dicts (snd (save_checkpoint fmt lib tr st))) = dicts st"
  unfolding save_checkpoint_def validate_monitor_key_def monitor_candidates_def Let_def
  by (simp add: seq_proj [where g = "\<lambda>s. take (length (dicts st)) (dicts s)"]
      get_metric_interpolated_filepath_name_take)

section \<open>The configuration and the last checked epoch\<close>

lemma example_default_eq:
  "example_default =
     \<lparr>monitor = None, verbose = False, save_last = False, save_top_k = 1,
      save_weights_only = False, period = 1, epoch_last_check = None, prefix = [],
      best_k_models = [], kth_best_model_path = [], best_model_score = PyInt 0,
      best_model_path = [], last_model_path = [], save_function = True,
      warned_result_obj = False, kth_value = PosInf, mode = Min, dirpath = Some ''ckpts'',
      filename = None, files = [], dicts = [[(''val_loss'', PyTensor (1 / 2))], [], []],
      warnings = [], infos = [], saved = [], rank = 0\<rparr>"
  by (simp add: example_default_def init_def init_monitor_mode_def mode_dict_def
      validate_init_configuration_def)

lemma save_checkpoint_config:
  "mode (snd (save_checkpoint fmt lib tr st)) = mode st"
  "save_top_k (snd (save_checkpoint fmt lib tr st)) = save_top_k st"
  "period (snd (save_checkpoint fmt lib tr st)) = period st"
  "save_last (snd (save_checkpoint fmt lib tr st)) = save_last st"
  "save_weights_only (snd (save_checkpoint fmt lib tr st)) = save_weights_only st"
  "prefix (snd (save_checkpoint fmt lib tr st)) = prefix st"
  "rank (snd (save_checkpoint fmt lib tr st)) = rank st"
  "monitor (snd (save_checkpoint fmt lib tr st)) =
     (if passes_gate tr st then monitor (add_backward_monitor_support tr st) else monitor st)"
proof -
  consider (skip) "\<not> passes_gate tr st"
    | (invalid) "passes_gate tr st"
        "fst (validate_monitor_key tr (add_backward_monitor_support tr st)) \<noteq> Inr ()"
    | (run) "passes_gate tr st"
        "fst (validate_monitor_key tr (add_backward_monitor_support tr st)) = Inr ()"
    by blast
  then have "config (snd (save_checkpoint fmt lib tr st)) =
       (if passes_gate tr st then config (add_backward_monitor_support tr st) else config st)
     \<and> rank (snd (save_checkpoint fmt lib tr st)) = rank st"
  proof cases
    case skip
    then show ?thesis by (simp add: save_checkpoint_skip)
  next
    case invalid
    then show ?thesis by (simp add: save_checkpoint_invalid)
  next
    case run
    from save_checkpoint_attrs [OF run, of fmt] run(1) show ?thesis
      by (simp add: attrs_def config_def)
  qed
  then show "mode (snd (save_checkpoint fmt lib tr st)) = mode st"
    "save_top_k (snd (save_checkpoint fmt lib tr st)) = save_top_k st"
    "period (snd (save_checkpoint fmt lib tr st)) = period st"
    "save_last (snd (save_checkpoint fmt lib tr st)) = save_last st"
    "save_weights_only (snd (save_checkpoint fmt lib tr st)) = save_weights_only st"
    "prefix (snd (save_checkpoint fmt lib tr st)) = prefix st"
    "rank (snd (save_checkpoint fmt lib tr st)) = rank st"
    "monitor (snd (save_checkpoint fmt lib tr st)) =
     (if passes_gate tr st then monitor (add_backward_monitor_support tr st) else monitor st)"
    by (simp_all add: config_def split: if_splits)
qed

lemma save_checkpoint_monitor_cases:
  "monitor (snd (save_checkpoint fmt lib tr st)) = monitor st
   \<or> monitor st = None
       \<and> monitor (snd (save_checkpoint fmt lib tr st)) \<in> {Some ''val_loss'', Some ''checkpoint_on''}"
  by (simp add: save_checkpoint_config add_backward_monitor_support_monitor)

text \<open>
  C7, as amended. Whatever the sequence of \<open>save_checkpoint\<close> invocations, the mode, the
  top-k count, the period, the save-last flag, the weights-only flag and the prefix are
  afterwards what they were, and so is the monitor key when one was configured. When none
  was, one invocation leaves it unset unless it passes the gate; then
  \<open>_add_backward_monitor_support\<close> sets it to \<open>val_loss\<close> when the callback metrics have
  that key, else to \<open>checkpoint_on\<close> when they have that one, and else leaves it unset.
  So after a sequence the key is the configured one, \<open>val_loss\<close> or \<open>checkpoint_on\<close>.
\<close>

theorem save_checkpoints_config:
  "mode (save_checkpoints fmt lib trs st) = mode st
   \<and> save_top_k (save_checkpoints fmt lib trs st) = save_top_k st
   \<and> period (save_checkpoints fmt lib trs st) = period st
   \<and> save_last (save_checkpoints fmt lib trs st) = save_last st
   \<and> save_weights_only (save_checkpoints fmt lib trs st) = save_weights_only st
   \<and> prefix (save_checkpoints fmt lib trs st) = prefix st
   \<and> (monitor st \<noteq> None \<longrightarrow> config (save_checkpoints fmt lib trs st) = config st)
   \<and> monitor (save_checkpoints fmt lib trs st) \<in> {monitor st, Some ''val_loss'', Some ''checkpoint_on''}
   \<and> monitor (snd (save_checkpoint fmt lib tr st)) =
       (if passes_gate tr st \<and> monitor st = None
        then if map_of (dicts st ! callback_metrics tr) ''val_loss'' \<noteq> None
             then Some ''val_loss''
             else if map_of (dicts st ! callback_metrics tr) ''checkpoint_on'' \<noteq> None
                  then Some ''checkpoint_on''
                  else None
        else monitor st)
   \<and> monitor (save_checkpoints fmt lib (tr # trs) st) \<in>
       {monitor (snd (save_checkpoint fmt lib tr st)), Some ''val_loss'', Some ''checkpoint_on''}"
proof -
  have seq: "mode (save_checkpoints fmt lib trs st) = mode st
   \<and> save_top_k (save_checkpoints fmt lib trs st) = save_top_k st
   \<and> period (save_checkpoints fmt lib trs st) = period st
   \<and> save_last (save_checkpoints fmt lib trs st) = save_last st
   \<and> save_weights_only (save_checkpoints fmt lib trs st) = save_weights_only st
   \<and> prefix (save_checkpoints fmt lib trs st) = prefix st
   \<and> (monitor st \<noteq> None \<longrightarrow> config (save_checkpoints fmt lib trs st) = config st)
   \<and> monitor (save_checkpoints fmt lib trs st) \<in> {monitor st, Some ''val_loss'', Some ''checkpoint_on''}"
    for st :: "'a state"
  proof (induction trs arbitrary: st)
    case Nil
    then show ?case by simp
  next
    case (Cons tr trs)
    let ?s = "snd (save_checkpoint fmt lib tr st)"
    note ih = Cons.IH [of ?s]
    note one = save_checkpoint_config [of fmt lib tr st]
    have m: "monitor ?s = monitor st
       \<or> monitor st = None \<and> monitor ?s \<in> {Some ''val_loss'', Some ''checkpoint_on''}"
      by (rule save_checkpoint_monitor_cases)
    have fields: "mode (save_checkpoints fmt lib (tr # trs) st) = mode st"
      "save_top_k (save_checkpoints fmt lib (tr # trs) st) = save_top_k st"
      "period (save_checkpoints fmt lib (tr # trs) st) = period st"
      "save_last (save_checkpoints fmt lib (tr # trs) st) = save_last st"
      "save_weights_only (save_checkpoints fmt lib (tr # trs) st) = save_weights_only st"
      "prefix (save_checkpoints fmt lib (tr # trs) st) = prefix st"
      using ih one by simp_all
    have kept: "monitor st \<noteq> None \<longrightarrow> monitor (save_checkpoints fmt lib (tr # trs) st) = monitor st"
    proof
      assume s: "monitor st \<noteq> None"
      then have "monitor ?s = monitor st" using m by auto
      moreover from this s ih have "config (save_checkpoints fmt lib trs ?s) = config ?s" by simp
      ultimately show "monitor (save_checkpoints fmt lib (tr # trs) st) = monitor st"
        by (simp add: config_def)
    qed
    have mem: "monitor (save_checkpoints fmt lib (tr # trs) st)
                 \<in> {monitor st, Some ''val_loss'', Some ''checkpoint_on''}"
    proof -
      from ih have "monitor (save_checkpoints fmt lib trs ?s)
                      \<in> {monitor ?s, Some ''val_loss'', Some ''checkpoint_on''}" by blast
      then show ?thesis using m by auto
    qed
    show ?case using fields kept mem by (simp add: config_def)
  qed
  have one: "monitor (snd (save_checkpoint fmt lib tr st)) =
       (if passes_gate tr st \<and> monitor st = None
        then if map_of (dicts st ! callback_metrics tr) ''val_loss'' \<noteq> None
             then Some ''val_loss''
             else if map_of (dicts st ! callback_metrics tr) ''checkpoint_on'' \<noteq> None
                  then Some ''checkpoint_on''
                  else None
        else monitor st)"
    by (simp add: save_checkpoint_config add_backward_monitor_support_monitor)
  have two: "monitor (save_checkpoints fmt lib (tr # trs) st) \<in>
       {monitor (snd (save_checkpoint fmt lib tr st)), Some ''val_loss'', Some ''checkpoint_on''}"
    using seq [of "snd (save_checkpoint fmt lib tr st)"] by simp
  show ?thesis using seq [of st] one two by blast
qed

theorem save_checkpoints_config_counterexample:
  "monitor example_both = None
   \<and> monitor (save_checkpoints str_format exact_torch [example_trainer] example_both) = Some ''val_loss''
   \<and> config (save_checkpoints str_format exact_torch [example_trainer] example_both) \<noteq> config example_both"
proof -
  have g: "passes_gate example_trainer example_both"
    by (simp add: passes_gate_def example_both_def example_default_eq example_trainer_def
        should_skip_epoch_def)
  have "monitor (snd (save_checkpoint str_format exact_torch example_trainer example_both)) =
          monitor (add_backward_monitor_support example_trainer example_both)"
    using g by (simp add: save_checkpoint_config)
  also have "\<dots> = Some ''val_loss''"
    by (simp add: add_backward_monitor_support_def Let_def example_both_def example_default_eq
        example_trainer_def)
  finally have m: "monitor (save_checkpoints str_format exact_torch [example_trainer] example_both) = Some ''val_loss''"
    by simp
  have n: "monitor example_both = None" by (simp add: example_both_def example_default_eq)
  show ?thesis using m n by (simp add: config_def)
qed

theorem save_checkpoints_config_witness:
  "monitor example_ckpt \<noteq> None
   \<and> config (save_checkpoints str_format exact_torch [example_trainer, example_trainer] example_ckpt) =
       (Some ''val_loss'', Min, 1, 1, False, False, [])
   \<and> passes_gate example_trainer example_both \<and> monitor example_both = None
   \<and> map_of (dicts example_both ! callback_metrics example_trainer) ''val_loss'' \<noteq> None
   \<and> map_of (dicts example_both ! callback_metrics example_trainer) ''checkpoint_on'' \<noteq> None
   \<and> monitor (snd (save_checkpoint str_format exact_torch example_trainer example_both)) = Some ''val_loss''
   \<and> passes_gate example_trainer example_on \<and> monitor example_on = None
   \<and> map_of (dicts example_on ! callback_metrics example_trainer) ''val_loss'' = None
   \<and> map_of (dicts example_on ! callback_metrics example_trainer) ''checkpoint_on'' \<noteq> None
   \<and> monitor (snd (save_checkpoint str_format exact_torch example_trainer example_on)) = Some ''checkpoint_on''
   \<and> monitor (snd (save_checkpoint str_format exact_torch (example_trainer\<lparr>global_rank := 1\<rparr>) example_on))
        = None"
proof -
  let ?off = "example_trainer\<lparr>global_rank := 1\<rparr>"
  have h: "monitor example_ckpt \<noteq> None" by (simp add: example_ckpt_eq)
  have c: "config example_ckpt = (Some ''val_loss'', Min, 1, 1, False, False, [])"
    by (simp add: config_def example_ckpt_eq)
  have b: "passes_gate example_trainer example_both" "monitor example_both = None"
    "map_of (dicts example_both ! callback_metrics example_trainer) ''val_loss'' \<noteq> None"
    "map_of (dicts example_both ! callback_metrics example_trainer) ''checkpoint_on'' \<noteq> None"
    by (simp_all add: passes_gate_def example_both_def example_default_eq example_trainer_def
        should_skip_epoch_def)
  have o: "passes_gate example_trainer example_on" "monitor example_on = None"
    "map_of (dicts example_on ! callback_metrics example_trainer) ''val_loss'' = None"
    "map_of (dicts example_on ! callback_metrics example_trainer) ''checkpoint_on'' \<noteq> None"
    "\<not> passes_gate ?off example_on"
    by (simp_all add: passes_gate_def example_on_def example_default_eq example_trainer_def
        should_skip_epoch_def)
  from save_checkpoints_config [where fmt = str_format and lib = exact_torch
      and trs = "[example_trainer, example_trainer]" and st = example_ckpt] h
  have r1: "config (save_checkpoints str_format exact_torch [example_trainer, example_trainer] example_ckpt) =
          config example_ckpt"
    by blast
  from save_checkpoints_config [where fmt = str_format and lib = exact_torch
      and tr = example_trainer and st = example_both] b
  have r2: "monitor (snd (save_checkpoint str_format exact_torch example_trainer example_both)) =
          Some ''val_loss''"
    by simp
  from save_checkpoints_config [where fmt = str_format and lib = exact_torch
      and tr = example_trainer and st = example_on] o
  have r3: "monitor (snd (save_checkpoint str_format exact_torch example_trainer example_on)) =
          Some ''checkpoint_on''"
    by simp
  from save_checkpoints_config [where fmt = str_format and lib = exact_torch
      and tr = ?off and st = example_on] o
  have r4: "monitor (snd (save_checkpoint str_format exact_torch ?off example_on)) = None"
    by simp
  show ?thesis using h c r1 r2 r3 r4 b o(1-4) by simp
qed

section \<open>Running the examples\<close>

lemmas eval_defs =
  save_checkpoint_def should_skip_epoch_def add_backward_monitor_support_def
  validate_monitor_key_def is_valid_monitor_key_def monitor_candidates_def dict_update_def
  get_metric_interpolated_filepath_name_def format_checkpoint_name_def
  format_checkpoint_name_cls_def rewrite_group_def str_replace.simps CHECKPOINT_JOIN_CHAR_def
  CHECKPOINT_NAME_LAST_def ckpt_path_def path_join_def while_exists.simps fs_exists_def fs_rm_def
  del_model_def save_model_def call_save_function_def save_last_checkpoint_def
  save_all_checkpoints_def save_top_k_checkpoints_def check_monitor_top_k_def do_check_save_def
  monitor_op_def as_tensor_def exact_torch_def isinstance_Tensor_def py_max_def py_min_def
  rank_zero_warn_def log_info_def render_field_def format_value_def parse_spec_def is_digit_def
  nat_of_digits_def pad_number_def fixed_point_def round_half_even_def str_nat.simps
  digit_char_def str_int_def Let_def

lemma example_full_run:
  "save_checkpoint str_format exact_torch example_trainer example_full =
     (Inr (),
      example_full\<lparr>epoch_last_check := Some 0,
        dicts := [[(''val_loss'', PyTensor (1 / 2))], [], [],
                  [(''val_loss'', PyTensor (1 / 2)), (''epoch'', PyInt 0)]]\<rparr>)"
  by (simp add: example_full_def example_ckpt_eq example_trainer_def eval_defs)

lemma example_no_key_run:
  "save_checkpoint str_format exact_torch example_trainer example_no_key =
     (Inl MisconfigurationException, example_no_key)"
  by (simp add: example_no_key_def example_ckpt_eq example_trainer_def eval_defs)

lemma example_gates:
  "passes_gate example_trainer example_full" "passes_gate example_trainer example_no_key"
  "passes_gate example_trainer example_ckpt"
  by (simp_all add: passes_gate_def should_skip_epoch_def example_full_def example_no_key_def
      example_ckpt_eq example_trainer_def)

section \<open>The last checked epoch\<close>

lemma save_checkpoint_epoch_run:
  assumes "passes_gate tr st"
    and "fst (validate_monitor_key tr (add_backward_monitor_support tr st)) = Inr ()"
  shows "epoch_last_check (snd (save_checkpoint fmt lib tr st)) = Some (current_epoch tr)"
  using save_checkpoint_attrs [OF assms, of fmt] by (simp add: attrs_def)

text \<open>
  C10, as amended. On a cycle that passes the gate and whose monitor key passes
  \<open>_validate_monitor_key\<close>, \<open>epoch_last_check\<close> is the current epoch afterwards,
  whatever the rest of the cycle does (a save, no save at all, a warning, an exception
  raised later); a further invocation less than \<open>period\<close> epochs later then returns at
  once with the state untouched. On a cycle that does not pass the gate, or whose monitor
  key is rejected (the exception is raised before the assignment), \<open>epoch_last_check\<close>
  keeps its value.
\<close>

theorem save_checkpoint_epoch_last_check:
  "(passes_gate tr st
      \<and> fst (validate_monitor_key tr (add_backward_monitor_support tr st)) = Inr () \<longrightarrow>
      epoch_last_check (snd (save_checkpoint fmt lib tr st)) = Some (current_epoch tr)
      \<and> (current_epoch tr' - current_epoch tr < period st \<longrightarrow>
           save_checkpoint fmt lib tr' (snd (save_checkpoint fmt lib tr st)) =
             (Inr (), snd (save_checkpoint fmt lib tr st))))
   \<and> (\<not> (passes_gate tr st
          \<and> fst (validate_monitor_key tr (add_backward_monitor_support tr st)) = Inr ()) \<longrightarrow>
        epoch_last_check (snd (save_checkpoint fmt lib tr st)) = epoch_last_check st)"
proof (intro conjI impI)
  assume a: "passes_gate tr st
      \<and> fst (validate_monitor_key tr (add_backward_monitor_support tr st)) = Inr ()"
  then show e: "epoch_last_check (snd (save_checkpoint fmt lib tr st)) = Some (current_epoch tr)"
    by (simp add: save_checkpoint_epoch_run)
  assume "current_epoch tr' - current_epoch tr < period st"
  then have "should_skip_epoch tr' (snd (save_checkpoint fmt lib tr st))"
    using e by (simp add: should_skip_epoch_def save_checkpoint_config)
  then have "\<not> passes_gate tr' (snd (save_checkpoint fmt lib tr st))"
    by (simp add: passes_gate_def)
  then show "save_checkpoint fmt lib tr' (snd (save_checkpoint fmt lib tr st)) =
             (Inr (), snd (save_checkpoint fmt lib tr st))"
    by (rule save_checkpoint_skip)
next
  assume "\<not> (passes_gate tr st
          \<and> fst (validate_monitor_key tr (add_backward_monitor_support tr st)) = Inr ())"
  then consider "\<not> passes_gate tr st"
    | "passes_gate tr st" "fst (validate_monitor_key tr (add_backward_monitor_support tr st)) \<noteq> Inr ()"
    by blast
  then show "epoch_last_check (snd (save_checkpoint fmt lib tr st)) = epoch_last_check st"
  proof cases
    case 1
    then show ?thesis by (simp add: save_checkpoint_skip)
  next
    case 2
    then show ?thesis by (simp add: save_checkpoint_invalid)
  qed
qed

theorem save_checkpoint_epoch_last_check_counterexample:
  "passes_gate example_trainer example_no_key
   \<and> fst (save_checkpoint str_format exact_torch example_trainer example_no_key) = Inl MisconfigurationException
   \<and> epoch_last_check (snd (save_checkpoint str_format exact_torch example_trainer example_no_key)) = None
   \<and> epoch_last_check (snd (save_checkpoint str_format exact_torch example_trainer example_no_key))
       \<noteq> Some (current_epoch example_trainer)"
  by (simp add: example_gates example_no_key_run) (simp add: example_no_key_def example_ckpt_eq)

theorem save_checkpoint_epoch_last_check_witness:
  "passes_gate example_trainer example_full
   \<and> fst (validate_monitor_key example_trainer
            (add_backward_monitor_support example_trainer example_full)) = Inr ()
   \<and> saved (snd (save_checkpoint str_format exact_torch example_trainer example_full)) = saved example_full
   \<and> epoch_last_check (snd (save_checkpoint str_format exact_torch example_trainer example_full)) = Some 0
   \<and> current_epoch example_trainer - current_epoch example_trainer < period example_full
   \<and> save_checkpoint str_format exact_torch example_trainer
         (snd (save_checkpoint str_format exact_torch example_trainer example_full)) =
       (Inr (), snd (save_checkpoint str_format exact_torch example_trainer example_full))
   \<and> \<not> (passes_gate example_trainer example_no_key
          \<and> fst (validate_monitor_key example_trainer
                 (add_backward_monitor_support example_trainer example_no_key)) = Inr ())
   \<and> epoch_last_check (snd (save_checkpoint str_format exact_torch example_trainer example_no_key)) = None"
proof -
  have v: "fst (validate_monitor_key example_trainer
            (add_backward_monitor_support example_trainer example_full)) = Inr ()"
    by (simp add: example_full_def example_ckpt_eq example_trainer_def
        validate_monitor_key_def add_backward_monitor_support_def is_valid_monitor_key_def Let_def)
  have nv: "\<not> (passes_gate example_trainer example_no_key
          \<and> fst (validate_monitor_key example_trainer
                 (add_backward_monitor_support example_trainer example_no_key)) = Inr ())"
    by (simp add: example_no_key_def example_ckpt_eq example_trainer_def
        validate_monitor_key_def add_backward_monitor_support_def is_valid_monitor_key_def Let_def)
  have p: "current_epoch example_trainer - current_epoch example_trainer < period example_full"
    by (simp add: example_full_def example_ckpt_eq)
  have s: "saved (snd (save_checkpoint str_format exact_torch example_trainer example_full)) = saved example_full"
    by (simp add: example_full_run)
  have c: "current_epoch example_trainer = 0" by (simp add: example_trainer_def)
  have n: "epoch_last_check example_no_key = None" by (simp add: example_no_key_def example_ckpt_eq)
  note t1 = save_checkpoint_epoch_last_check
    [where tr = example_trainer and st = example_full and fmt = str_format and lib = exact_torch and tr' = example_trainer]
  note t2 = save_checkpoint_epoch_last_check
    [where tr = example_trainer and st = example_no_key and fmt = str_format and lib = exact_torch and tr' = example_trainer]
  from t1 example_gates(1) v p
  have e: "epoch_last_check (snd (save_checkpoint str_format exact_torch example_trainer example_full)) =
            Some (current_epoch example_trainer)"
    and k: "save_checkpoint str_format exact_torch example_trainer
         (snd (save_checkpoint str_format exact_torch example_trainer example_full)) =
       (Inr (), snd (save_checkpoint str_format exact_torch example_trainer example_full))"
    by blast+
  from t2 nv
  have f: "epoch_last_check (snd (save_checkpoint str_format exact_torch example_trainer example_no_key))
            = epoch_last_check example_no_key"
    by blast
  show ?thesis using example_gates(1) v p s e k nv f c n by simp
qed

section \<open>The cycle after the gate\<close>

lemma save_checkpoint_run:
  assumes "passes_gate tr st"
    and "fst (validate_monitor_key tr (add_backward_monitor_support tr st)) = Inr ()"
  shows "save_checkpoint fmt lib tr st =
     (case get_metric_interpolated_filepath_name fmt (current_epoch tr) (length (dicts st))
             (after_candidates tr st) of
        (Inl e, st4) \<Rightarrow> (Inl e, st4)
      | (Inr filepath, st4) \<Rightarrow>
          (case save_last_checkpoint fmt (current_epoch tr) (length (dicts st)) filepath st4 of
             (Inl e, st5) \<Rightarrow> (Inl e, st5)
           | (Inr _, st5) \<Rightarrow>
               if monitor st5 \<noteq> None then
                 (if save_top_k st5 = - 1
                  then save_all_checkpoints tr (current_epoch tr) filepath st5
                  else save_top_k_checkpoints lib (length (dicts st)) (current_epoch tr) filepath st5)
               else (Inr (), st5)))"
proof -
  have g: "rank st = 0" "global_rank tr = 0" "save_top_k st \<noteq> 0" "\<not> running_sanity_check tr"
    "\<not> should_skip_epoch tr st"
    using assms(1) by (simp_all add: passes_gate_def)
  have v: "validate_monitor_key tr (add_backward_monitor_support tr st) =
             (Inr (), add_backward_monitor_support tr st)"
    using assms(2) by (simp add: validate_monitor_key_def Let_def split: if_splits)
  let ?st3 = "(add_backward_monitor_support tr st)
      \<lparr>epoch_last_check := Some (current_epoch tr),
        dicts := dicts st @ [dict_update (dict_update (dicts st ! logged_metrics tr)
                   (dicts st ! callback_metrics tr)) (dicts st ! progress_bar_metrics tr)]\<rparr>"
  have a: "after_candidates tr st = ?st3"
    by (simp add: after_candidates_def monitor_candidates_def Let_def)
  obtain r4 st4 where e4:
    "get_metric_interpolated_filepath_name fmt (current_epoch tr) (length (dicts st)) ?st3 = (r4, st4)"
    by fastforce
  show ?thesis
  proof (cases r4)
    case (Inl e)
    then show ?thesis
      by (simp add: save_checkpoint_def g v monitor_candidates_def Let_def a e4)
  next
    case r4: (Inr filepath)
    obtain r5 st5 where e5:
      "save_last_checkpoint fmt (current_epoch tr) (length (dicts st)) filepath st4 = (r5, st5)"
      by fastforce
    show ?thesis
    proof (cases r5)
      case (Inl e)
      then show ?thesis
        by (simp add: save_checkpoint_def g v monitor_candidates_def Let_def a e4 r4 e5)
    next
      case (Inr u)
      then show ?thesis
        by (simp add: save_checkpoint_def g v monitor_candidates_def Let_def a e4 r4 e5)
    qed
  qed
qed

lemma after_candidates_keeps [simp]:
  "best_k_models (after_candidates tr st) = best_k_models st"
  "kth_best_model_path (after_candidates tr st) = kth_best_model_path st"
  "warnings (after_candidates tr st) = warnings st"
  "files (after_candidates tr st) = files st"
  "saved (after_candidates tr st) = saved st"
  "save_top_k (after_candidates tr st) = save_top_k st"
  "save_last (after_candidates tr st) = save_last st"
  "monitor (after_candidates tr st) = monitor (add_backward_monitor_support tr st)"
  "length (dicts (after_candidates tr st)) = Suc (length (dicts st))"
  by (simp_all add: after_candidates_def monitor_candidates_def Let_def)

lemma after_candidates_dict:
  "dicts (after_candidates tr st) ! length (dicts st) =
     dict_update (dict_update (dicts st ! logged_metrics tr) (dicts st ! callback_metrics tr))
       (dicts st ! progress_bar_metrics tr)"
  by (simp add: after_candidates_def monitor_candidates_def Let_def)

lemma add_backward_monitor_support_set:
  "monitor st \<noteq> None \<Longrightarrow> add_backward_monitor_support tr st = st"
  by (simp add: add_backward_monitor_support_def Let_def)

lemma map_of_dict_update_None:
  "map_of (dict_update d other) k = None \<longleftrightarrow> map_of d k = None \<and> map_of other k = None"
  unfolding dict_update_def
proof (induction other arbitrary: d)
  case Nil
  show ?case by simp
next
  case (Cons p other)
  obtain a b where p: "p = (a, b)" by (cases p)
  have "map_of (fold (\<lambda>(k, v) acc. AList.update k v acc) (p # other) d) k = None
         \<longleftrightarrow> map_of (AList.update a b d) k = None \<and> map_of other k = None"
    using Cons.IH [of "AList.update a b d"] by (simp add: p)
  also have "\<dots> \<longleftrightarrow> map_of d k = None \<and> map_of (p # other) k = None"
    by (simp add: p update_conv')
  finally show ?case .
qed

lemma format_checkpoint_name_cls_dicts:
  "dicts (snd (format_checkpoint_name_cls fmt fname epoch mref pre st)) =
     (let gs = re_findall_groups
                 (case fname of None \<Rightarrow> ''{epoch}'' | Some f \<Rightarrow> if f = [] then ''{epoch}'' else f)
      in if gs = [] then dicts st
         else (dicts st)[mref := default_names gs
                 (AList.update ''epoch'' (PyInt epoch) (dicts st ! mref))])"
  by (simp add: format_checkpoint_name_cls_def Let_def fold_rewrite_group split: sum.splits)

lemma format_checkpoint_name_cls_key:
  assumes "k \<notin> placeholder_names fname" and "mref < length (dicts st)"
  shows "map_of (dicts (snd (format_checkpoint_name_cls fmt fname epoch mref pre st)) ! mref) k =
           map_of (dicts st ! mref) k"
proof -
  define gs where "gs = re_findall_groups
      (case fname of None \<Rightarrow> ''{epoch}'' | Some f \<Rightarrow> if f = [] then ''{epoch}'' else f)"
  show ?thesis
  proof (cases "gs = []")
    case True
    then show ?thesis
      by (simp add: format_checkpoint_name_cls_dicts gs_def [symmetric])
  next
    case False
    then have k: "k \<noteq> ''epoch''" "k \<notin> tl ` set gs"
      using assms(1) by (simp_all add: placeholder_names_def gs_def [symmetric])
    have "map_of (default_names gs (AList.update ''epoch'' (PyInt epoch) (dicts st ! mref))) k =
            map_of (dicts st ! mref) k"
      using k by (simp add: map_of_default_names update_conv')
    then show ?thesis
      using False assms(2) by (simp add: format_checkpoint_name_cls_dicts gs_def [symmetric])
  qed
qed

lemma format_checkpoint_name_key:
  assumes "format_checkpoint_name fmt epoch mref ver st = (r, st')"
    and "k \<notin> placeholder_names (filename st)" and "mref < length (dicts st)"
  shows "map_of (dicts st' ! mref) k = map_of (dicts st ! mref) k"
proof -
  have "st' = snd (format_checkpoint_name_cls fmt (filename st) epoch mref (prefix st) st)"
    using assms(1) by (auto simp: format_checkpoint_name_def Let_def split: prod.splits sum.splits)
  then show ?thesis using assms(2,3) by (simp add: format_checkpoint_name_cls_key)
qed

lemma get_metric_interpolated_filepath_name_key:
  assumes k: "k \<notin> placeholder_names (filename st)" and m: "mref < length (dicts st)"
  shows "map_of (dicts (snd (get_metric_interpolated_filepath_name fmt epoch mref st)) ! mref) k =
           map_of (dicts st ! mref) k"
proof -
  let ?P = "\<lambda>s. dicts_changed mref st s \<and> map_of (dicts s ! mref) k = map_of (dicts st ! mref) k"
  have step: "\<forall>v s r s'. format_checkpoint_name fmt epoch mref v s = (r, s') \<longrightarrow> ?P s \<longrightarrow> ?P s'"
  proof (intro allI impI)
    fix v s r s'
    assume f: "format_checkpoint_name fmt epoch mref v s = (r, s')" and p: "?P s"
    from p have dc: "dicts_changed mref st s" by simp
    have a: "attrs s = attrs st" and l: "length (dicts s) = length (dicts st)"
      using dicts_changed_keeps [OF dc] by simp_all
    from a have fn: "filename s = filename st" by (simp add: attrs_def)
    have "map_of (dicts s' ! mref) k = map_of (dicts s ! mref) k"
      using f k m fn l by (intro format_checkpoint_name_key [OF f]) simp_all
    moreover have "dicts_changed mref st s'"
      using p format_checkpoint_name_dicts_changed [OF f] by (blast intro: dicts_changed_trans)
    ultimately show "?P s'" using p by simp
  qed
  have p0: "?P st" by (simp add: dicts_changed_refl)
  obtain r s1 where f: "format_checkpoint_name fmt epoch mref None st = (r, s1)" by fastforce
  have p1: "?P s1" using step f p0 by blast
  show ?thesis
  proof (cases r)
    case (Inl e)
    then show ?thesis using f p1 by (simp add: get_metric_interpolated_filepath_name_def)
  next
    case (Inr p)
    have "?P (snd (while_exists fmt epoch mref 0 p s1))"
      using step p1 by (rule while_exists_invariant)
    then show ?thesis using f Inr by (simp add: get_metric_interpolated_filepath_name_def)
  qed
qed

lemma save_top_k_checkpoints_missing:
  "monitor st = Some k \<Longrightarrow> map_of (dicts st ! mref) k = None \<Longrightarrow>
   save_top_k_checkpoints lib mref epoch filepath st =
     (Inr (), rank_zero_warn (if k = ''checkpoint_on'' then NoCheckpointOn
                              else MonitorNotAvailable (Some k)) st)"
  by (simp add: save_top_k_checkpoints_def)

section \<open>The last checkpoint\<close>






section \<open>The templating of the file name\<close>

lemma example_run_eq:
  "example_run =
     \<lparr>monitor = None, verbose = False, save_last = False, save_top_k = 1,
      save_weights_only = False, period = 1, epoch_last_check = None, prefix = ''run'',
      best_k_models = [], kth_best_model_path = [], best_model_score = PyInt 0,
      best_model_path = [], last_model_path = [], save_function = True,
      warned_result_obj = False, kth_value = PosInf, mode = Min, dirpath = Some ''ckpts'',
      filename = Some ''{epoch}-{score:.2f}'', files = [],
      dicts = [[(''score'', PyFloat (Fin (8891907104280307 / 72057594037927936)))]],
      warnings = [], infos = [], saved = [], rank = 0\<rparr>"
  by (simp add: example_run_def init_def init_monitor_mode_def mode_dict_def
      validate_init_configuration_def)

lemma format_checkpoint_name_cls_eq:
  "format_checkpoint_name_cls fmt fname epoch mref pre st =
     (let fname0 = (case fname of None \<Rightarrow> ''{epoch}'' | Some f \<Rightarrow> if f = [] then ''{epoch}'' else f);
          gs = re_findall_groups fname0;
          m = default_names gs (AList.update ''epoch'' (PyInt epoch) (dicts st ! mref))
      in if gs = [] then (Inr (str_join ''-'' (filter (\<lambda>t. t \<noteq> []) [pre, fname0])), st)
         else (case fmt (rewrite_template gs fname0) m of
                 Inl e \<Rightarrow> Inl e
               | Inr txt \<Rightarrow> Inr (str_join ''-'' (filter (\<lambda>t. t \<noteq> []) [pre, txt])),
               st\<lparr>dicts := (dicts st)[mref := m]\<rparr>))"
  by (simp add: format_checkpoint_name_cls_def Let_def fold_rewrite_group CHECKPOINT_JOIN_CHAR_def
      split: sum.splits)

lemma join_prefix:
  "str_join ''-'' (filter (\<lambda>t. t \<noteq> []) [pre, txt]) =
     (if pre = [] then txt else if txt = [] then pre else pre @ ''-'' @ txt)"
  by simp

lemma scenario_groups:
  "re_findall_groups ''{epoch}-{score:.2f}'' = [''{epoch'', ''{score'']"
  by (simp add: eval_defs)

lemma scenario_template:
  "rewrite_template [''{epoch'', ''{score''] ''{epoch}-{score:.2f}'' =
     ''epoch={epoch}-score={score:.2f}''"
  by (simp add: rewrite_template_def eval_defs)

lemma scenario_render:
  "str_format ''epoch={epoch}-score={score:.2f}''
     [(''score'', PyFloat (Fin (8891907104280307 / 72057594037927936))), (''epoch'', PyInt 3)] =
   (Inr ''epoch=3-score=0.12'' :: exn + string)"
  by (simp add: eval_defs fixed_digits_def is_finite_def)

lemma scenario_cls:
  "format_checkpoint_name_cls str_format (Some ''{epoch}-{score:.2f}'') 3 0 ''run'' example_run =
     (Inr ''run-epoch=3-score=0.12'',
      example_run\<lparr>dicts := [[(''score'', PyFloat (Fin (8891907104280307 / 72057594037927936))),
                               (''epoch'', PyInt 3)]]\<rparr>)"
  by (simp add: example_run_eq eval_defs fixed_digits_def is_finite_def)

lemma scenario_name:
  "format_checkpoint_name str_format 3 0 None example_run =
     (Inr ''ckpts/run-epoch=3-score=0.12.ckpt'',
      example_run\<lparr>dicts := [[(''score'', PyFloat (Fin (8891907104280307 / 72057594037927936))),
                               (''epoch'', PyInt 3)]]\<rparr>)"
  by (simp add: example_run_eq eval_defs fixed_digits_def is_finite_def)

lemma scenario_cycle:
  "format_checkpoint_name str_format 3 0 None (example_run\<lparr>filename := Some ''{cycle}-{score:.2f}''\<rparr>) =
     (Inr ''ckpts/run-cycle=0-score=0.12.ckpt'',
      example_run\<lparr>filename := Some ''{cycle}-{score:.2f}'',
                  dicts := [[(''score'', PyFloat (Fin (8891907104280307 / 72057594037927936))),
                               (''epoch'', PyInt 3), (''cycle'', PyInt 0)]]\<rparr>)"
  by (simp add: example_run_eq eval_defs fixed_digits_def is_finite_def)

text \<open>
  C9. The formatter, on any template: every placeholder \<open>{name\<close> of the template is
  rewritten to \<open>name={name\<close>, the dictionary gets the entry \<open>epoch\<close> and an entry \<open>0\<close>
  for every placeholder name it lacks, the rewritten template is rendered with that
  dictionary, a non-empty prefix is joined to the rendered text with \<open>-\<close>, and
  \<open>format_checkpoint_name\<close> appends \<open>.ckpt\<close>. The index the formatter injects is the
  key \<open>epoch\<close>: with the template \<open>{epoch}-{score:.2f}\<close>, metrics \<open>{score: 0.1234}\<close>,
  index 3 and prefix \<open>run\<close> the name is \<open>run-epoch=3-score=0.12.ckpt\<close>, in the directory
  of the checkpoints. A placeholder \<open>{cycle}\<close> is a name the metrics lack, and renders as
  \<open>cycle=0\<close>.
\<close>

theorem format_checkpoint_name_scenario:
  "format_checkpoint_name_cls fmt fname epoch mref pre st =
     (let fname0 = (case fname of None \<Rightarrow> ''{epoch}'' | Some f \<Rightarrow> if f = [] then ''{epoch}'' else f);
          gs = re_findall_groups fname0;
          m = default_names gs (AList.update ''epoch'' (PyInt epoch) (dicts st ! mref))
      in if gs = [] then (Inr (str_join ''-'' (filter (\<lambda>t. t \<noteq> []) [pre, fname0])), st)
         else (case fmt (rewrite_template gs fname0) m of
                 Inl e \<Rightarrow> Inl e
               | Inr txt \<Rightarrow> Inr (str_join ''-'' (filter (\<lambda>t. t \<noteq> []) [pre, txt])),
               st\<lparr>dicts := (dicts st)[mref := m]\<rparr>))
   \<and> map_of (default_names gs' m') k =
       (if map_of m' k = None \<and> k \<in> tl ` set gs' then Some (PyInt 0) else map_of m' k)
   \<and> str_join ''-'' (filter (\<lambda>t. t \<noteq> []) [pre, txt']) =
       (if pre = [] then txt' else if txt' = [] then pre else pre @ ''-'' @ txt')
   \<and> re_findall_groups ''{epoch}-{score:.2f}'' = [''{epoch'', ''{score'']
   \<and> rewrite_template [''{epoch'', ''{score''] ''{epoch}-{score:.2f}'' =
       ''epoch={epoch}-score={score:.2f}''
   \<and> str_format ''epoch={epoch}-score={score:.2f}''
        [(''score'', PyFloat (Fin (8891907104280307 / 72057594037927936))), (''epoch'', PyInt 3)] =
       (Inr ''epoch=3-score=0.12'' :: exn + string)
   \<and> format_checkpoint_name_cls str_format (Some ''{epoch}-{score:.2f}'') 3 0 ''run'' example_run =
       (Inr ''run-epoch=3-score=0.12'',
        example_run\<lparr>dicts := [[(''score'', PyFloat (Fin (8891907104280307 / 72057594037927936))),
                                 (''epoch'', PyInt 3)]]\<rparr>)
   \<and> format_checkpoint_name str_format 3 0 None example_run =
       (Inr ''ckpts/run-epoch=3-score=0.12.ckpt'',
        example_run\<lparr>dicts := [[(''score'', PyFloat (Fin (8891907104280307 / 72057594037927936))),
                                 (''epoch'', PyInt 3)]]\<rparr>)
   \<and> format_checkpoint_name str_format 3 0 None
        (example_run\<lparr>filename := Some ''{cycle}-{score:.2f}''\<rparr>) =
       (Inr ''ckpts/run-cycle=0-score=0.12.ckpt'',
        example_run\<lparr>filename := Some ''{cycle}-{score:.2f}'',
                    dicts := [[(''score'', PyFloat (Fin (8891907104280307 / 72057594037927936))),
                               (''epoch'', PyInt 3), (''cycle'', PyInt 0)]]\<rparr>)"
  using format_checkpoint_name_cls_eq [of fmt fname epoch mref pre st]
    map_of_default_names [of gs' m' k] join_prefix [of pre txt']
    scenario_groups scenario_template scenario_render scenario_cls scenario_name scenario_cycle
  by blast

section \<open>The dictionaries of metrics\<close>

lemma save_checkpoint_dicts_length:
  "length (dicts st) \<le> length (dicts (snd (save_checkpoint fmt lib tr st)))"
proof -
  have "length (take (length (dicts st)) (dicts (snd (save_checkpoint fmt lib tr st)))) =
          length (dicts st)"
    by (simp only: save_checkpoint_dicts)
  then show ?thesis by simp
qed

lemma save_checkpoints_dicts:
  "take (length (dicts st)) (dicts (save_checkpoints fmt lib trs st)) = dicts st"
proof (induction trs arbitrary: st)
  case Nil
  then show ?case by simp
next
  case (Cons tr trs)
  let ?s = "snd (save_checkpoint fmt lib tr st)"
  let ?n = "length (dicts st)"
  have "take ?n (dicts (save_checkpoints fmt lib trs ?s)) =
          take ?n (take (length (dicts ?s)) (dicts (save_checkpoints fmt lib trs ?s)))"
    using save_checkpoint_dicts_length [of st fmt lib tr] by (simp add: min_def)
  also have "\<dots> = take ?n (dicts ?s)" by (simp only: Cons.IH)
  also have "\<dots> = dicts st" by (rule save_checkpoint_dicts)
  finally show ?case by simp
qed

lemma format_checkpoint_name_cls_map_of:
  "map_of (dicts (snd (format_checkpoint_name_cls fmt fname epoch mref pre st)) ! mref) k =
     (let gs = re_findall_groups
                 (case fname of None \<Rightarrow> ''{epoch}'' | Some f \<Rightarrow> if f = [] then ''{epoch}'' else f)
      in if gs \<noteq> [] \<and> mref < length (dicts st) then
           (if k = ''epoch'' then Some (PyInt epoch)
            else if map_of (dicts st ! mref) k = None \<and> k \<in> tl ` set gs then Some (PyInt 0)
            else map_of (dicts st ! mref) k)
         else map_of (dicts st ! mref) k)"
proof (cases "mref < length (dicts st)")
  case True
  then show ?thesis
    by (simp add: format_checkpoint_name_cls_dicts Let_def map_of_default_names update_conv')
next
  case False
  then have "length (dicts st) \<le> mref" by simp
  then show ?thesis
    by (simp add: format_checkpoint_name_cls_dicts Let_def list_update_beyond)
qed

lemma format_checkpoint_name_dicts:
  "dicts (snd (format_checkpoint_name fmt epoch mref ver st)) =
     dicts (snd (format_checkpoint_name_cls fmt (filename st) epoch mref (prefix st) st))"
  by (simp add: format_checkpoint_name_def Let_def split: prod.splits sum.splits)

text \<open>
  C8, as amended. \<open>_format_checkpoint_name\<close> writes into the dictionary it is given: when
  the template has a placeholder, the entry \<open>epoch\<close> is set and every placeholder name the
  dictionary lacks gets the entry \<open>0\<close>; the other entries, and the other dictionaries, are
  kept. \<open>format_checkpoint_name\<close> does the same to the dictionary of its caller.
  \<open>save_checkpoint\<close> formats with the copy \<open>_monitor_candidates\<close> makes: after one
  invocation, and after any sequence of them, every dictionary that existed before is what
  it was.
\<close>

theorem format_checkpoint_name_metrics:
  "dicts (snd (format_checkpoint_name_cls fmt fname epoch mref pre st)) =
     (let gs = re_findall_groups
                 (case fname of None \<Rightarrow> ''{epoch}'' | Some f \<Rightarrow> if f = [] then ''{epoch}'' else f)
      in if gs = [] then dicts st
         else (dicts st)[mref := default_names gs
                 (AList.update ''epoch'' (PyInt epoch) (dicts st ! mref))])
   \<and> map_of (dicts (snd (format_checkpoint_name_cls fmt fname epoch mref pre st)) ! mref) k =
     (let gs = re_findall_groups
                 (case fname of None \<Rightarrow> ''{epoch}'' | Some f \<Rightarrow> if f = [] then ''{epoch}'' else f)
      in if gs \<noteq> [] \<and> mref < length (dicts st) then
           (if k = ''epoch'' then Some (PyInt epoch)
            else if map_of (dicts st ! mref) k = None \<and> k \<in> tl ` set gs then Some (PyInt 0)
            else map_of (dicts st ! mref) k)
         else map_of (dicts st ! mref) k)
   \<and> dicts (snd (format_checkpoint_name fmt epoch mref ver st)) =
       dicts (snd (format_checkpoint_name_cls fmt (filename st) epoch mref (prefix st) st))
   \<and> monitor_candidates tr st =
       (length (dicts st),
        st\<lparr>dicts := dicts st @
           [dict_update (dict_update (dicts st ! logged_metrics tr) (dicts st ! callback_metrics tr))
              (dicts st ! progress_bar_metrics tr)]\<rparr>)
   \<and> take (length (dicts st)) (dicts (snd (save_checkpoint fmt lib tr st))) = dicts st
   \<and> take (length (dicts st)) (dicts (save_checkpoints fmt lib trs st)) = dicts st"
  using format_checkpoint_name_cls_dicts [of fmt fname epoch mref pre st]
    format_checkpoint_name_cls_map_of [of fmt fname epoch mref pre st k]
    format_checkpoint_name_dicts [of fmt epoch mref ver st]
    save_checkpoint_dicts [of st fmt lib tr] save_checkpoints_dicts [of st fmt lib trs]
  by (simp add: monitor_candidates_def Let_def)

theorem format_checkpoint_name_metrics_counterexample:
  "dicts example_ckpt ! 0 = [(''val_loss'', PyTensor (1 / 2))]
   \<and> format_checkpoint_name str_format 0 0 None example_ckpt =
       (Inr ''ckpts/epoch=0.ckpt'',
        example_ckpt\<lparr>dicts := [[(''val_loss'', PyTensor (1 / 2)), (''epoch'', PyInt 0)], [], []]\<rparr>)
   \<and> dicts (snd (format_checkpoint_name str_format 0 0 None example_ckpt)) ! 0 \<noteq>
       dicts example_ckpt ! 0"
  by (simp add: example_ckpt_eq eval_defs)

end
